theory Spec2Isabelle
  imports Main "HOL-Library.Word"
begin

section \<open>Python values\<close>

text \<open>
  A Python \<open>str\<close> is a sequence of Unicode code points, and \<open>len\<close> counts code
  points; it is modelled as a list of naturals. \<open>lit\<close> embeds an ASCII literal of the
  source. The bullet glyph of the renderers is U+2022.
\<close>

type_synonym pystr = "nat list"

definition lit :: "string \<Rightarrow> pystr" where
  "lit s = map of_char s"

definition bullet_glyph :: nat where
  "bullet_glyph = 8226"

text \<open>
  The values \<open>json.loads\<close> produces: \<open>None\<close>, \<open>bool\<close>, \<open>int\<close>, \<open>float\<close> (an IEEE
  double, kept as its 64 bits), \<open>str\<close>, \<open>list\<close> and \<open>dict\<close>. A dict keeps insertion
  order and has string keys; it is an association list whose lookup takes the first
  entry of a key (a Python dict holds each key once).
\<close>

datatype json =
    JNull
  | JBool bool
  | JInt int
  | JFloat "64 word"
  | JStr pystr
  | JArr "json list"
  | JObj "(pystr \<times> json) list"

datatype error =
    AttributeError
  | TypeError
  | KeyError
  | IndexError
  | ValueError
  | JSONDecodeError
  | RecursionError
  | ImportError
  | OSError
  | RequestException
  | HTTPError

text \<open>
  Library functions of Python that the repository calls and does not define are
  parameters of the model: the JSON decoder (\<open>json.loads\<close>, \<open>json.load\<close>,
  \<open>Response.json\<close>; \<open>Inl\<close> is the exception it raises), \<open>str()\<close> of a value that is
  neither a string nor \<open>None\<close> nor a bool, and \<open>str.upper\<close>. So are the two document
  libraries where they can refuse a text: the exception, if any, that the constructor
  \<open>Paragraph\<close> of ReportLab raises on a text (a value that is not a string, markup
  that does not parse), and the exception, if any, that python-docx raises on a text
  given to \<open>add_heading\<close>, \<open>add_paragraph\<close> or \<open>add_run\<close>.
\<close>

record pylib =
  json_loads :: "pystr \<Rightarrow> error + json"
  str_of :: "json \<Rightarrow> pystr"
  str_upper :: "pystr \<Rightarrow> pystr"
  paragraph_check :: "json \<Rightarrow> error option"
  docx_check :: "json \<Rightarrow> error option"

definition and_then :: "error + 'a \<Rightarrow> ('a \<Rightarrow> error + 'b) \<Rightarrow> error + 'b" where
  "and_then r f = (case r of Inl e \<Rightarrow> Inl e | Inr v \<Rightarrow> f v)"

primrec traverse :: "('a \<Rightarrow> error + 'b) \<Rightarrow> 'a list \<Rightarrow> error + 'b list" where
  "traverse f [] = Inr []"
| "traverse f (x # xs) =
     (case f x of
        Inl e \<Rightarrow> Inl e
      | Inr y \<Rightarrow> (case traverse f xs of Inl e \<Rightarrow> Inl e | Inr ys \<Rightarrow> Inr (y # ys)))"

text \<open>Truth value of a value in \<open>if v:\<close>. A float is false exactly when it is \<open>0.0\<close> or \<open>-0.0\<close>.\<close>

fun py_truthy :: "json \<Rightarrow> bool" where
  "py_truthy JNull = False"
| "py_truthy (JBool b) = b"
| "py_truthy (JInt i) = (i \<noteq> 0)"
| "py_truthy (JFloat w) = (w \<noteq> 0 \<and> w \<noteq> 0x8000000000000000)"
| "py_truthy (JStr s) = (s \<noteq> [])"
| "py_truthy (JArr xs) = (xs \<noteq> [])"
| "py_truthy (JObj kvs) = (kvs \<noteq> [])"

text \<open>\<open>str(v)\<close>, which is also what an f-string field \<open>{v}\<close> inserts.\<close>

definition py_str :: "pylib \<Rightarrow> json \<Rightarrow> pystr" where
  "py_str lib v =
     (case v of
        JStr s \<Rightarrow> s
      | JNull \<Rightarrow> lit ''None''
      | JBool b \<Rightarrow> (if b then lit ''True'' else lit ''False'')
      | _ \<Rightarrow> str_of lib v)"

text \<open>\<open>d.get(k, default)\<close> on a dict.\<close>

definition dict_get :: "(pystr \<times> json) list \<Rightarrow> pystr \<Rightarrow> json \<Rightarrow> json" where
  "dict_get kvs k d = (case map_of kvs k of None \<Rightarrow> d | Some v \<Rightarrow> v)"

text \<open>\<open>v.get(k, default)\<close> on any value: only a dict has the method.\<close>

definition py_get :: "json \<Rightarrow> pystr \<Rightarrow> json \<Rightarrow> error + json" where
  "py_get v k d = (case v of JObj kvs \<Rightarrow> Inr (dict_get kvs k d) | _ \<Rightarrow> Inl AttributeError)"

text \<open>\<open>v[k]\<close> with a string key: \<open>KeyError\<close> on a dict without the key, \<open>TypeError\<close> on
  every other value.\<close>

definition py_getitem :: "json \<Rightarrow> pystr \<Rightarrow> error + json" where
  "py_getitem v k =
     (case v of
        JObj kvs \<Rightarrow> (case map_of kvs k of None \<Rightarrow> Inl KeyError | Some x \<Rightarrow> Inr x)
      | _ \<Rightarrow> Inl TypeError)"

text \<open>\<open>v[0]\<close>: the first element of a list or string, \<open>IndexError\<close> when it is empty,
  \<open>KeyError\<close> on a dict (its keys are strings), \<open>TypeError\<close> otherwise.\<close>

definition py_getitem0 :: "json \<Rightarrow> error + json" where
  "py_getitem0 v =
     (case v of
        JArr xs \<Rightarrow> (case xs of [] \<Rightarrow> Inl IndexError | x # _ \<Rightarrow> Inr x)
      | JStr s \<Rightarrow> (case s of [] \<Rightarrow> Inl IndexError | c # _ \<Rightarrow> Inr (JStr [c]))
      | JObj kvs \<Rightarrow> Inl KeyError
      | _ \<Rightarrow> Inl TypeError)"

text \<open>\<open>v.items()\<close>: only a dict has the method.\<close>

definition py_items :: "json \<Rightarrow> error + (pystr \<times> json) list" where
  "py_items v = (case v of JObj kvs \<Rightarrow> Inr kvs | _ \<Rightarrow> Inl AttributeError)"

text \<open>\<open>for x in v\<close>: the elements of a list, the keys of a dict, the characters of a
  string; every other value is not iterable.\<close>

definition py_iter :: "json \<Rightarrow> error + json list" where
  "py_iter v =
     (case v of
        JArr xs \<Rightarrow> Inr xs
      | JObj kvs \<Rightarrow> Inr (map (\<lambda>kv. JStr (fst kv)) kvs)
      | JStr s \<Rightarrow> Inr (map (\<lambda>c. JStr [c]) s)
      | _ \<Rightarrow> Inl TypeError)"

text \<open>\<open>sep.join(parts)\<close> on strings.\<close>

fun join :: "pystr \<Rightarrow> pystr list \<Rightarrow> pystr" where
  "join sep [] = []"
| "join sep [x] = x"
| "join sep (x # y # ys) = x @ sep @ join sep (y # ys)"

fun is_str :: "json \<Rightarrow> bool" where
  "is_str (JStr s) = True"
| "is_str v = False"

fun the_str :: "json \<Rightarrow> pystr" where
  "the_str (JStr s) = s"
| "the_str v = []"

text \<open>\<open>sep.join(v)\<close> on any value: \<open>v\<close> must be iterable and every item a string.\<close>

definition py_join :: "pystr \<Rightarrow> json \<Rightarrow> error + pystr" where
  "py_join sep v =
     and_then (py_iter v) (\<lambda>xs.
       if list_all is_str xs then Inr (join sep (map the_str xs)) else Inl TypeError)"

section \<open>The renderers of generate\_resume.py\<close>

text \<open>
  \<open>generate_pdf\<close> builds a ReportLab story, a list of flowables, and hands it to
  \<open>doc.build\<close>; \<open>generate_docx\<close> adds headings and paragraphs to a python-docx
  document and saves it. The model returns the story and the list of blocks, with the
  arguments as the source passes them to the library. A library call on a text that
  comes from the data raises when the library refuses the text, and the renderer
  catches nothing; the literal headings of the source are plain texts, which the
  libraries accept. The layout, the bytes of the file and the \<open>print\<close> calls are
  outside the model. An exception of the source is \<open>Inl\<close>.
\<close>

datatype pdf_style =
    Name_style
  | Job_title_style
  | Contact_style
  | Section_style
  | Body_style
  | Exp_title_style
  | Company_style
  | Bullet_style
  | App_name_style
  | Normal_style
  | Heading2_style

datatype flowable =
    Paragraph json pdf_style
  | Spacer nat nat

text \<open>A python-docx block: a heading (text, level, alignment) or a paragraph (the text
  given to \<open>add_paragraph\<close>, its style, the runs added to it as text and boldness, its
  alignment).\<close>

datatype docx_block =
    Docx_heading json nat "nat option"
  | Docx_paragraph json "pystr option" "(json \<times> bool) list" "nat option"

definition WD_ALIGN_CENTER :: nat where
  "WD_ALIGN_CENTER = 1"

text \<open>The two library calls that take a text from the data: \<open>Paragraph(text, style)\<close>
  and the python-docx calls \<open>add_heading\<close>, \<open>add_paragraph\<close> and \<open>add_run\<close>.\<close>

definition new_paragraph :: "pylib \<Rightarrow> json \<Rightarrow> pdf_style \<Rightarrow> error + flowable" where
  "new_paragraph lib text style =
     (case paragraph_check lib text of Some e \<Rightarrow> Inl e | None \<Rightarrow> Inr (Paragraph text style))"

definition docx_text :: "pylib \<Rightarrow> json \<Rightarrow> error + json" where
  "docx_text lib text = (case docx_check lib text of Some e \<Rightarrow> Inl e | None \<Rightarrow> Inr text)"

text \<open>Lines 378-381 of generate\_resume.py: the skills text of the PDF renderer.\<close>

definition pdf_skills_text :: "pylib \<Rightarrow> json \<Rightarrow> json" where
  "pdf_skills_text lib skills =
     (case skills of
        JArr xs \<Rightarrow> JStr (join (lit '', '') (map (py_str lib) xs))
      | _ \<Rightarrow> skills)"

definition pdf_skill_markup :: "pylib \<Rightarrow> pystr \<times> json \<Rightarrow> json" where
  "pdf_skill_markup lib cs =
     JStr (lit ''<b>'' @ fst cs @ lit '':</b> '' @ py_str lib (pdf_skills_text lib (snd cs)))"

definition pdf_skill_line :: "pylib \<Rightarrow> pystr \<times> json \<Rightarrow> error + flowable" where
  "pdf_skill_line lib cs = new_paragraph lib (pdf_skill_markup lib cs) Body_style"

definition pdf_bullet_text :: "pylib \<Rightarrow> json \<Rightarrow> json" where
  "pdf_bullet_text lib point = JStr (bullet_glyph # lit '' '' @ py_str lib point)"

definition pdf_bullet :: "pylib \<Rightarrow> json \<Rightarrow> error + flowable" where
  "pdf_bullet lib point = new_paragraph lib (pdf_bullet_text lib point) Bullet_style"

definition pdf_title_text :: "pylib \<Rightarrow> json \<Rightarrow> json \<Rightarrow> json" where
  "pdf_title_text lib title dates =
     JStr (lit ''<b>'' @ py_str lib title @ lit ''</b> | '' @ py_str lib dates)"

definition pdf_company_text :: "pylib \<Rightarrow> json \<Rightarrow> json \<Rightarrow> json" where
  "pdf_company_text lib company location =
     JStr (py_str lib company @ lit '' - '' @ py_str lib location)"

text \<open>Lines 388-395: one experience entry of the PDF, a paragraph for each point of
  \<open>job.get('points', [])\<close>.\<close>

definition pdf_experience_entry :: "pylib \<Rightarrow> json \<Rightarrow> error + flowable list" where
  "pdf_experience_entry lib job =
     and_then (py_get job (lit ''title'') (JStr [])) (\<lambda>title.
     and_then (py_get job (lit ''company'') (JStr [])) (\<lambda>company.
     and_then (py_get job (lit ''dates'') (JStr [])) (\<lambda>dates.
     and_then (new_paragraph lib (pdf_title_text lib title dates) Exp_title_style) (\<lambda>title_line.
     and_then (py_get job (lit ''location'') (JStr [])) (\<lambda>location.
     and_then (new_paragraph lib (pdf_company_text lib company location) Company_style)
       (\<lambda>company_line.
     and_then (py_get job (lit ''points'') (JArr [])) (\<lambda>points.
     and_then (py_iter points) (\<lambda>pts.
     and_then (traverse (pdf_bullet lib) pts) (\<lambda>bullets.
       Inr ([title_line, company_line] @ bullets @ [Spacer 1 6]))))))))))"

definition pdf_contact_text :: "pylib \<Rightarrow> json \<Rightarrow> json \<Rightarrow> json \<Rightarrow> json" where
  "pdf_contact_text lib email phone location =
     JStr (py_str lib email @ lit '' &nbsp;|&nbsp; '' @ py_str lib phone
           @ lit '' &nbsp;|&nbsp; '' @ py_str lib location)"

text \<open>Lines 327-398, in the order of the source.\<close>

definition generate_pdf :: "pylib \<Rightarrow> json \<Rightarrow> error + flowable list" where
  "generate_pdf lib data =
     and_then (py_get data (lit ''name'') (JStr [])) (\<lambda>name.
     and_then (new_paragraph lib name Name_style) (\<lambda>name_line.
     and_then (py_get data (lit ''title'') (JStr [])) (\<lambda>title.
     and_then (new_paragraph lib title Job_title_style) (\<lambda>title_line.
     and_then (py_get data (lit ''email'') (JStr [])) (\<lambda>email.
     and_then (py_get data (lit ''phone'') (JStr [])) (\<lambda>phone.
     and_then (py_get data (lit ''location'') (JStr [])) (\<lambda>location.
     and_then (new_paragraph lib (pdf_contact_text lib email phone location) Contact_style)
       (\<lambda>contact_line.
     and_then (py_get data (lit ''summary'') (JStr [])) (\<lambda>summary.
     and_then (new_paragraph lib summary Body_style) (\<lambda>summary_line.
     and_then (py_get data (lit ''skills'') (JObj [])) (\<lambda>skills.
     and_then (py_items skills) (\<lambda>skill_items.
     and_then (traverse (pdf_skill_line lib) skill_items) (\<lambda>skill_lines.
     and_then (py_get data (lit ''experience'') (JArr [])) (\<lambda>experience.
     and_then (py_iter experience) (\<lambda>jobs.
     and_then (traverse (pdf_experience_entry lib) jobs) (\<lambda>entries.
       Inr ([name_line, title_line, contact_line,
             Paragraph (JStr (lit ''PROFESSIONAL SUMMARY'')) Section_style,
             summary_line,
             Paragraph (JStr (lit ''TECHNICAL SKILLS'')) Section_style]
            @ skill_lines
            @ [Paragraph (JStr (lit ''PROFESSIONAL EXPERIENCE'')) Section_style]
            @ concat entries)))))))))))))))))"

text \<open>Lines 426-433: the skills text of the DOCX renderer, with its check for a list
  of fragments of at most two characters.\<close>

definition docx_skills_text :: "pylib \<Rightarrow> json \<Rightarrow> pystr" where
  "docx_skills_text lib skills =
     (case skills of
        JArr xs \<Rightarrow>
          (if py_truthy skills \<and> list_all (\<lambda>s. length (py_str lib s) \<le> 2) xs
           then concat (map (py_str lib) xs)
           else join (lit '', '') (map (py_str lib) xs))
      | _ \<Rightarrow> py_str lib skills)"

definition docx_skill_line :: "pylib \<Rightarrow> pystr \<times> json \<Rightarrow> error + docx_block" where
  "docx_skill_line lib cs =
     and_then (docx_text lib (JStr (fst cs @ lit '': ''))) (\<lambda>category_run.
     and_then (docx_text lib (JStr (docx_skills_text lib (snd cs)))) (\<lambda>skills_run.
       Inr (Docx_paragraph (JStr []) None [(category_run, True), (skills_run, False)] None)))"

definition docx_bullet :: "pylib \<Rightarrow> json \<Rightarrow> error + docx_block" where
  "docx_bullet lib point =
     and_then (docx_text lib point) (\<lambda>text.
       Inr (Docx_paragraph text (Some (lit ''List Bullet'')) [] None))"

definition docx_company_dates_text :: "pylib \<Rightarrow> json \<Rightarrow> json \<Rightarrow> json" where
  "docx_company_dates_text lib company dates =
     JStr (lit '' | '' @ py_str lib company @ lit '' | '' @ py_str lib dates)"

text \<open>Lines 440-445: one experience entry of the DOCX, a paragraph for each point of
  \<open>job['points']\<close>.\<close>

definition docx_experience_entry :: "pylib \<Rightarrow> json \<Rightarrow> error + docx_block list" where
  "docx_experience_entry lib job =
     and_then (py_getitem job (lit ''title'')) (\<lambda>title.
     and_then (docx_text lib (JStr (py_str lib title))) (\<lambda>title_run.
     and_then (py_getitem job (lit ''company'')) (\<lambda>company.
     and_then (py_getitem job (lit ''dates'')) (\<lambda>dates.
     and_then (docx_text lib (docx_company_dates_text lib company dates)) (\<lambda>company_run.
     and_then (py_getitem job (lit ''points'')) (\<lambda>points.
     and_then (py_iter points) (\<lambda>pts.
     and_then (traverse (docx_bullet lib) pts) (\<lambda>bullets.
       Inr (Docx_paragraph (JStr []) None [(title_run, True), (company_run, False)] None
            # bullets)))))))))"

definition docx_contact_text :: "pylib \<Rightarrow> json \<Rightarrow> json \<Rightarrow> json \<Rightarrow> json" where
  "docx_contact_text lib email phone location =
     JStr (py_str lib email @ lit '' | '' @ py_str lib phone @ lit '' | '' @ py_str lib location)"

text \<open>Lines 400-448, in the order of the source.\<close>

definition generate_docx :: "pylib \<Rightarrow> json \<Rightarrow> error + docx_block list" where
  "generate_docx lib data =
     and_then (py_getitem data (lit ''name'')) (\<lambda>name.
     and_then (docx_text lib name) (\<lambda>name_text.
     and_then (py_getitem data (lit ''title'')) (\<lambda>title.
     and_then (docx_text lib title) (\<lambda>title_text.
     and_then (py_getitem data (lit ''email'')) (\<lambda>email.
     and_then (py_getitem data (lit ''phone'')) (\<lambda>phone.
     and_then (py_getitem data (lit ''location'')) (\<lambda>location.
     and_then (docx_text lib (docx_contact_text lib email phone location)) (\<lambda>contact_text.
     and_then (py_getitem data (lit ''summary'')) (\<lambda>summary.
     and_then (docx_text lib summary) (\<lambda>summary_text.
     and_then (py_getitem data (lit ''skills'')) (\<lambda>skills.
     and_then (py_items skills) (\<lambda>skill_items.
     and_then (traverse (docx_skill_line lib) skill_items) (\<lambda>skill_lines.
     and_then (py_getitem data (lit ''experience'')) (\<lambda>experience.
     and_then (py_iter experience) (\<lambda>jobs.
     and_then (traverse (docx_experience_entry lib) jobs) (\<lambda>entries.
       Inr ([Docx_heading name_text 0 (Some WD_ALIGN_CENTER),
             Docx_paragraph title_text None [] (Some WD_ALIGN_CENTER),
             Docx_paragraph contact_text None [] (Some WD_ALIGN_CENTER),
             Docx_heading (JStr (lit ''Professional Summary'')) 1 None,
             Docx_paragraph summary_text None [] None,
             Docx_heading (JStr (lit ''Technical Skills'')) 1 None]
            @ skill_lines
            @ [Docx_heading (JStr (lit ''Professional Experience'')) 1 None]
            @ concat entries)))))))))))))))))"

text \<open>The bullet lines of an output: the PDF paragraphs in the bullet style, the DOCX
  paragraphs in the style \<open>List Bullet\<close>.\<close>

fun is_pdf_bullet :: "flowable \<Rightarrow> bool" where
  "is_pdf_bullet (Paragraph t Bullet_style) = True"
| "is_pdf_bullet f = False"

fun is_docx_bullet :: "docx_block \<Rightarrow> bool" where
  "is_docx_bullet (Docx_paragraph t (Some s) runs a) = (s = lit ''List Bullet'')"
| "is_docx_bullet b = False"

definition bullet_lines :: "('a \<Rightarrow> bool) \<Rightarrow> error + 'a list \<Rightarrow> error + nat" where
  "bullet_lines p r = (case r of Inl e \<Rightarrow> Inl e | Inr xs \<Rightarrow> Inr (length (filter p xs)))"

section \<open>The renderers of app.py\<close>

text \<open>
  The web application has renderers of its own, which the download route calls. They
  read the bullets of an entry from the key \<open>bullets\<close> and keep the first four:
  \<open>job.get('bullets', [])[:4]\<close>. A slice is defined on a list and on a string; on a
  dict it raises (\<open>TypeError\<close>, \<open>KeyError\<close> from Python 3.12 on), on every other value
  \<open>TypeError\<close>. The calls of the two document libraries are kept here as the source
  writes them, without the check of the text: a text that a library refuses ends the
  request with an exception and adds no line to the output.
\<close>

definition py_slice4 :: "json \<Rightarrow> error + json" where
  "py_slice4 v =
     (case v of
        JArr xs \<Rightarrow> Inr (JArr (take 4 xs))
      | JStr s \<Rightarrow> Inr (JStr (take 4 s))
      | _ \<Rightarrow> Inl TypeError)"

text \<open>The items of the loop \<open>for bullet in job.get('bullets', [])[:4]\<close>.\<close>

definition app_bullets :: "json \<Rightarrow> error + json list" where
  "app_bullets job =
     and_then (py_get job (lit ''bullets'') (JArr [])) (\<lambda>bullets.
     and_then (py_slice4 bullets) py_iter)"

definition app_bullet_text :: "pylib \<Rightarrow> json \<Rightarrow> json" where
  "app_bullet_text lib bullet = JStr (bullet_glyph # lit '' '' @ py_str lib bullet)"

text \<open>The two lines that head an experience entry (lines 288-289 and 329-332 of app.py).\<close>

definition app_pdf_job_header :: "pylib \<Rightarrow> (pystr \<times> json) list \<Rightarrow> flowable list" where
  "app_pdf_job_header lib kvs =
     [Paragraph (JStr (lit ''<b>'' @ py_str lib (dict_get kvs (lit ''title'') (JStr []))
                       @ lit ''</b> | '' @ py_str lib (dict_get kvs (lit ''company'') (JStr []))))
        Normal_style,
      Paragraph (JStr (py_str lib (dict_get kvs (lit ''dates'') (JStr []))
                       @ lit '' | '' @ py_str lib (dict_get kvs (lit ''location'') (JStr []))))
        Normal_style]"

definition app_docx_job_header :: "pylib \<Rightarrow> (pystr \<times> json) list \<Rightarrow> docx_block list" where
  "app_docx_job_header lib kvs =
     [Docx_paragraph (JStr []) None
        [(JStr (py_str lib (dict_get kvs (lit ''title'') (JStr []))), True),
         (JStr (lit '' | '' @ py_str lib (dict_get kvs (lit ''company'') (JStr []))), False)] None,
      Docx_paragraph (JStr (py_str lib (dict_get kvs (lit ''dates'') (JStr []))
                            @ lit '' | '' @ py_str lib (dict_get kvs (lit ''location'') (JStr []))))
        None [] None]"

definition app_pdf_experience_entry :: "pylib \<Rightarrow> json \<Rightarrow> error + flowable list" where
  "app_pdf_experience_entry lib job =
     (case job of
        JObj kvs \<Rightarrow>
          and_then (app_bullets job) (\<lambda>bullets.
            Inr (app_pdf_job_header lib kvs
                 @ map (\<lambda>b. Paragraph (app_bullet_text lib b) Normal_style) bullets
                 @ [Spacer 1 8]))
      | _ \<Rightarrow> Inl AttributeError)"

definition app_docx_experience_entry :: "pylib \<Rightarrow> json \<Rightarrow> error + docx_block list" where
  "app_docx_experience_entry lib job =
     (case job of
        JObj kvs \<Rightarrow>
          and_then (app_bullets job) (\<lambda>bullets.
            Inr (app_docx_job_header lib kvs
                 @ map (\<lambda>b. Docx_paragraph (app_bullet_text lib b) None [] None) bullets))
      | _ \<Rightarrow> Inl AttributeError)"

text \<open>The skills text of both renderers of app.py: \<open>', '.join(skills)\<close>.\<close>

definition app_skill_text :: "pystr \<times> json \<Rightarrow> error + pystr \<times> pystr" where
  "app_skill_text cs = and_then (py_join (lit '', '') (snd cs)) (\<lambda>t. Inr (fst cs, t))"

text \<open>\<open>if data.get('skills'): ... for category, skills in data['skills'].items()\<close>: the
  categories with their joined texts, or nothing when the value is absent or false.\<close>

definition app_skills :: "json \<Rightarrow> error + (pystr \<times> pystr) list option" where
  "app_skills skills =
     (if py_truthy skills
      then and_then (py_items skills) (\<lambda>items.
           and_then (traverse app_skill_text items) (\<lambda>ts. Inr (Some ts)))
      else Inr None)"

definition app_generate_pdf :: "pylib \<Rightarrow> json \<Rightarrow> error + flowable list" where
  "app_generate_pdf lib data =
     and_then (py_get data (lit ''name'') (JStr [])) (\<lambda>name.
     and_then (py_get data (lit ''email'') (JStr [])) (\<lambda>email.
     and_then (py_get data (lit ''phone'') (JStr [])) (\<lambda>phone.
     and_then (py_get data (lit ''location'') (JStr [])) (\<lambda>location.
     and_then (py_get data (lit ''summary'') JNull) (\<lambda>summary.
     and_then (py_get data (lit ''skills'') JNull) (\<lambda>skills.
     and_then (app_skills skills) (\<lambda>skill_texts.
     and_then (py_get data (lit ''experience'') (JArr [])) (\<lambda>experience.
     and_then (py_iter experience) (\<lambda>jobs.
     and_then (traverse (app_pdf_experience_entry lib) jobs) (\<lambda>entries.
       Inr ([Paragraph name App_name_style,
             Paragraph (JStr (py_str lib email @ lit '' | '' @ py_str lib phone
                              @ lit '' | '' @ py_str lib location)) Normal_style,
             Spacer 1 12]
            @ (if py_truthy summary
               then [Paragraph (JStr (lit ''<b>PROFESSIONAL SUMMARY</b>'')) Heading2_style,
                     Paragraph summary Normal_style,
                     Spacer 1 12]
               else [])
            @ (case skill_texts of
                 None \<Rightarrow> []
               | Some ts \<Rightarrow>
                   [Paragraph (JStr (lit ''<b>TECHNICAL SKILLS</b>'')) Heading2_style]
                   @ map (\<lambda>ct. Paragraph (JStr (lit ''<b>'' @ fst ct @ lit '':</b> '' @ snd ct))
                                  Normal_style) ts
                   @ [Spacer 1 12])
            @ [Paragraph (JStr (lit ''<b>PROFESSIONAL EXPERIENCE</b>'')) Heading2_style]
            @ concat entries)))))))))))"

definition app_generate_docx :: "pylib \<Rightarrow> json \<Rightarrow> error + docx_block list" where
  "app_generate_docx lib data =
     and_then (py_get data (lit ''name'') (JStr [])) (\<lambda>name.
     and_then (py_get data (lit ''email'') (JStr [])) (\<lambda>email.
     and_then (py_get data (lit ''phone'') (JStr [])) (\<lambda>phone.
     and_then (py_get data (lit ''location'') (JStr [])) (\<lambda>location.
     and_then (py_get data (lit ''summary'') JNull) (\<lambda>summary.
     and_then (py_get data (lit ''skills'') JNull) (\<lambda>skills.
     and_then (app_skills skills) (\<lambda>skill_texts.
     and_then (py_get data (lit ''experience'') (JArr [])) (\<lambda>experience.
     and_then (py_iter experience) (\<lambda>jobs.
     and_then (traverse (app_docx_experience_entry lib) jobs) (\<lambda>entries.
       Inr ([Docx_heading name 0 (Some 1),
             Docx_paragraph (JStr []) None
               [(JStr (py_str lib email @ lit '' | '' @ py_str lib phone
                       @ lit '' | '' @ py_str lib location), False)] (Some 1)]
            @ (if py_truthy summary
               then [Docx_heading (JStr (lit ''Professional Summary'')) 1 None,
                     Docx_paragraph summary None [] None]
               else [])
            @ (case skill_texts of
                 None \<Rightarrow> []
               | Some ts \<Rightarrow>
                   Docx_heading (JStr (lit ''Technical Skills'')) 1 None
                   # map (\<lambda>ct. Docx_paragraph (JStr []) None
                                  [(JStr (fst ct @ lit '': ''), True), (JStr (snd ct), False)] None) ts)
            @ [Docx_heading (JStr (lit ''Professional Experience'')) 1 None]
            @ concat entries)))))))))))"

section \<open>The LLM backend\<close>

text \<open>
  \<open>requests.post\<close> is the one effect of the pipeline on the outside world. The
  network is a state: how the backend answers the k-th request of the process, and the
  requests posted so far. A call either fails in transport (a connection error or a
  timeout, a \<open>RequestException\<close>) or returns a status code and a body.
\<close>

datatype http_outcome =
    Transport_failure
  | Http_response nat pystr

record http_request =
  req_url :: pystr
  req_headers :: "(pystr \<times> pystr) list"
  req_payload :: json
  req_timeout :: "nat option"

record net =
  respond :: "nat \<Rightarrow> http_request \<Rightarrow> http_outcome"
  posted :: "http_request list"

definition requests_post :: "http_request \<Rightarrow> net \<Rightarrow> http_outcome \<times> net" where
  "requests_post req n = (respond n (length (posted n)) req, n\<lparr>posted := posted n @ [req]\<rparr>)"

text \<open>\<open>os.environ\<close>.\<close>

type_synonym environ = "pystr \<Rightarrow> pystr option"

record provider =
  provider_name :: pystr
  provider_url :: pystr
  provider_model :: pystr
  provider_env_key :: pystr
  provider_default_key :: pystr

record llm_config =
  cfg_provider :: pystr
  cfg_url :: pystr
  cfg_model :: pystr
  cfg_api_key :: pystr

text \<open>The first provider, in the order of the table, for which a key is found;
  \<open>ValueError\<close> when there is none.\<close>

primrec find_config :: "(provider \<Rightarrow> pystr) \<Rightarrow> provider list \<Rightarrow> error + llm_config" where
  "find_config key_of [] = Inl ValueError"
| "find_config key_of (p # ps) =
     (if key_of p \<noteq> []
      then Inr \<lparr> cfg_provider = provider_name p, cfg_url = provider_url p,
                 cfg_model = provider_model p, cfg_api_key = key_of p \<rparr>
      else find_config key_of ps)"

text \<open>
  app.py, lines 46-74. The table gives Cerebras a default key, a non-empty literal of
  the source; its characters are not reproduced here, the model uses only that it is
  not empty. The key of a provider is \<open>os.environ.get(env_key, "") or default_key\<close>.
\<close>

definition DEFAULT_CEREBRAS_KEY :: pystr where
  "DEFAULT_CEREBRAS_KEY = lit ''csk-(elided)''"

definition app_LLM_PROVIDERS :: "provider list" where
  "app_LLM_PROVIDERS =
     [\<lparr> provider_name = lit ''cerebras'',
         provider_url = lit ''https://api.cerebras.ai/v1/chat/completions'',
         provider_model = lit ''llama-3.3-70b'',
         provider_env_key = lit ''CEREBRAS_API_KEY'',
         provider_default_key = DEFAULT_CEREBRAS_KEY \<rparr>,
      \<lparr> provider_name = lit ''groq'',
         provider_url = lit ''https://api.groq.com/openai/v1/chat/completions'',
         provider_model = lit ''llama-3.3-70b-versatile'',
         provider_env_key = lit ''GROQ_API_KEY'',
         provider_default_key = [] \<rparr>,
      \<lparr> provider_name = lit ''openrouter'',
         provider_url = lit ''https://openrouter.ai/api/v1/chat/completions'',
         provider_model = lit ''meta-llama/llama-3.3-70b-instruct:free'',
         provider_env_key = lit ''OPENROUTER_API_KEY'',
         provider_default_key = [] \<rparr>]"

definition app_api_key :: "environ \<Rightarrow> provider \<Rightarrow> pystr" where
  "app_api_key env p =
     (let k = (case env (provider_env_key p) of None \<Rightarrow> [] | Some v \<Rightarrow> v)
      in if k \<noteq> [] then k else provider_default_key p)"

definition app_get_llm_config :: "environ \<Rightarrow> error + llm_config" where
  "app_get_llm_config env = find_config (app_api_key env) app_LLM_PROVIDERS"

text \<open>
  generate\_resume.py, lines 25-65: the same providers with empty default keys; the key
  of a provider is \<open>os.environ.get(env_key, default_key)\<close>.
\<close>

definition LLM_PROVIDERS :: "provider list" where
  "LLM_PROVIDERS = map (\<lambda>p. p\<lparr>provider_default_key := []\<rparr>) app_LLM_PROVIDERS"

definition api_key :: "environ \<Rightarrow> provider \<Rightarrow> pystr" where
  "api_key env p =
     (case env (provider_env_key p) of None \<Rightarrow> provider_default_key p | Some v \<Rightarrow> v)"

definition get_llm_config :: "environ \<Rightarrow> error + llm_config" where
  "get_llm_config env = find_config (api_key env) LLM_PROVIDERS"

text \<open>\<open>result["choices"][0]["message"]["content"]\<close>.\<close>

definition message_content :: "json \<Rightarrow> error + json" where
  "message_content result =
     and_then (py_getitem result (lit ''choices'')) (\<lambda>choices.
     and_then (py_getitem0 choices) (\<lambda>choice.
     and_then (py_getitem choice (lit ''message'')) (\<lambda>message.
       py_getitem message (lit ''content''))))"

text \<open>The floats of the payloads: 0.7 and 0.5 as IEEE doubles.\<close>

definition float_0_7 :: json where
  "float_0_7 = JFloat 0x3FE6666666666666"

definition float_0_5 :: json where
  "float_0_5 = JFloat 0x3FE0000000000000"

definition bearer_headers :: "llm_config \<Rightarrow> (pystr \<times> pystr) list" where
  "bearer_headers config =
     [(lit ''Authorization'', lit ''Bearer '' @ cfg_api_key config),
      (lit ''Content-Type'', lit ''application/json'')]"

definition llm_request :: "llm_config \<Rightarrow> pystr \<Rightarrow> int \<Rightarrow> http_request" where
  "llm_request config prompt max_tokens =
     \<lparr> req_url = cfg_url config,
       req_headers = bearer_headers config,
       req_payload =
         JObj [(lit ''model'', JStr (cfg_model config)),
               (lit ''messages'',
                  JArr [JObj [(lit ''role'', JStr (lit ''user'')), (lit ''content'', JStr prompt)]]),
               (lit ''temperature'', float_0_7),
               (lit ''max_tokens'', JInt max_tokens)],
       req_timeout = Some 120 \<rparr>"

text \<open>
  \<open>call_llm\<close> of app.py (lines 76-88) catches nothing: a missing key, a transport
  failure, an error status (\<open>raise_for_status\<close>), a body that is not JSON and a
  response of another shape are all exceptions of the caller.
\<close>

definition call_llm :: "pylib \<Rightarrow> environ \<Rightarrow> pystr \<Rightarrow> int \<Rightarrow> net \<Rightarrow> (error + json) \<times> net" where
  "call_llm lib env prompt max_tokens n =
     (case app_get_llm_config env of
        Inl e \<Rightarrow> (Inl e, n)
      | Inr config \<Rightarrow>
          (case requests_post (llm_request config prompt max_tokens) n of
             (Transport_failure, n') \<Rightarrow> (Inl RequestException, n')
           | (Http_response status body, n') \<Rightarrow>
               (if 400 \<le> status \<and> status < 600 then Inl HTTPError
                else and_then (json_loads lib body) message_content, n')))"

section \<open>The job info extractor\<close>

definition line :: "string \<Rightarrow> pystr" where
  "line s = lit s @ [10]"

definition extract_prompt :: "pylib \<Rightarrow> json \<Rightarrow> pystr" where
  \<open>extract_prompt lib job_description =
     line ''Extract the following from this job description and return as JSON:''
     @ line ''- job_title: The job title/position''
     @ line ''- company: The company name (or recruiter company if client not mentioned)''
     @ line ''- location: The job location''
     @ line ''- job_type: remote/hybrid/onsite''
     @ line ''- key_skills: List of top 5-7 required skills''
     @ line ''''
     @ line ''Job Description:''
     @ py_str lib job_description @ [10]
     @ line ''''
     @ line ''Return ONLY valid JSON, no other text:''
     @ lit ''{"job_title": "...", "company": "...", "location": "...", "job_type": "...", "key_skills": [...]}''\<close>

text \<open>
  \<open>re.search(r'\{.*\}', result, re.DOTALL)\<close>: with the greedy \<open>.*\<close> matching
  newlines too, the match runs from the first \<open>{\<close> of the text to the last \<open>}\<close>
  after it, and there is none when no \<open>}\<close> follows the first \<open>{\<close>.
\<close>

definition re_search_braces :: "pystr \<Rightarrow> pystr option" where
  "re_search_braces s =
     (case dropWhile (\<lambda>c. c \<noteq> 123) s of
        [] \<Rightarrow> None
      | b # rest \<Rightarrow>
          (case dropWhile (\<lambda>c. c \<noteq> 125) (rev rest) of
             [] \<Rightarrow> None
           | c # tail \<Rightarrow> Some (b # rev (c # tail))))"

definition default_job_info :: json where
  "default_job_info =
     JObj [(lit ''job_title'', JStr (lit ''Software Engineer'')),
           (lit ''company'', JStr (lit ''Company'')),
           (lit ''location'', JStr (lit ''Remote'')),
           (lit ''job_type'', JStr (lit ''hybrid'')),
           (lit ''key_skills'', JArr [])]"

text \<open>
  Lines 107-113 of app.py. The bare \<open>except\<close> covers the search and the decoding:
  a result that is not a string (\<open>re.search\<close> raises \<open>TypeError\<close>) and every
  exception of \<open>json.loads\<close> end in the default record.
\<close>

definition parse_job_info :: "pylib \<Rightarrow> json \<Rightarrow> json" where
  "parse_job_info lib result =
     (case result of
        JStr s \<Rightarrow>
          (case re_search_braces s of
             None \<Rightarrow> default_job_info
           | Some m \<Rightarrow> (case json_loads lib m of Inl e \<Rightarrow> default_job_info | Inr v \<Rightarrow> v))
      | _ \<Rightarrow> default_job_info)"

text \<open>Lines 90-113: the call of the LLM stands before the \<open>try\<close>.\<close>

definition extract_job_info :: "pylib \<Rightarrow> environ \<Rightarrow> json \<Rightarrow> net \<Rightarrow> (error + json) \<times> net" where
  "extract_job_info lib env job_description n =
     (case call_llm lib env (extract_prompt lib job_description) 500 n of
        (Inl e, n') \<Rightarrow> (Inl e, n')
      | (Inr result, n') \<Rightarrow> (Inr (parse_job_info lib result), n'))"

section \<open>The resume tailoring requestor\<close>

definition unlines :: "string list \<Rightarrow> pystr" where
  "unlines ls = join [10] (map lit ls)"

text \<open>The system prompt, lines 176-262 of generate\_resume.py.\<close>

definition tailoring_prompt :: pystr where
  \<open>tailoring_prompt = unlines [
      ''Analyze the resume and job description, then return a JSON object with this EXACT structure:'',
      ''{'',
      ''    "name": "Full Name",'',
      ''    "title": "Professional Title tailored to job",'',
      ''    "email": "mohammedmazhermd@gmail.com",'',
      ''    "phone": "(510) 771-4493",'',
      ''    "location": "San Jose, CA",'',
      ''    "linkedin": "linkedin URL or empty string",'',
      ''    "summary": "3-4 sentence professional summary tailored to the job",'',
      ''    "skills": {'',
      ''        "Languages": "Python, Java, JavaScript, etc",'',
      ''        "Frameworks": "Spring Boot, React, etc",'',
      ''        "Cloud & DevOps": "AWS, Kubernetes, Docker, etc",'',
      ''        "Databases": "PostgreSQL, MongoDB, etc"'',
      ''    },'',
      ''    "experience": ['',
      ''        {'',
      ''            "title": "Job Title",'',
      ''            "company": "Company Name",'',
      ''            "location": "City, State",'',
      ''            "dates": "MMM YYYY - MMM YYYY",'',
      ''            "points": ['',
      ''                "First bullet point achievement with metrics and numbers",'',
      ''                "Second bullet point achievement with specific results",'',
      ''                "Third bullet point showing technical skills used"'',
      ''            ]'',
      ''        }'',
      ''    ]'',
      ''}'',
      '''',
      ''CRITICAL - SKILLS FORMAT:'',
      ''- Skills MUST be comma-separated strings like "Java, Python, JavaScript"'',
      ''- Do NOT return skills as an array of characters'',
      ''- Example correct format: "Languages": "Java, Python, JavaScript, TypeScript"'',
      '''',
      ''CRITICAL - EXPERIENCE POINTS:'',
      ''- Each job MUST have a "points" array with 3-5 bullet points'',
      ''- Points should be specific achievements from the original resume'',
      ''- Include metrics, percentages, and specific technologies used'',
      ''- Do NOT return empty points arrays'',
      '''',
      ''CRITICAL - CONTACT INFO (USE EXACTLY):'',
      ''- Email: mohammedmazhermd@gmail.com (NOT muhammadkasim@gmail.com)'',
      ''- Phone: (510) 771-4493'',
      ''- Location: San Jose, CA'',
      '''',
      ''CRITICAL - EXPERIENCE ORDER:'',
      ''- List experience in REVERSE CHRONOLOGICAL ORDER (most recent job FIRST)'',
      ''- Galaxy I Tech (current) must be FIRST'',
      ''- Zyme Solutions (oldest) must be LAST'',
      '''',
      ''NOTE: For contract/consulting roles with multiple clients under one parent company,'',
      ''format as separate entries like:'',
      ''- "Galaxy I Tech - Client: Apple"'',
      ''- "Galaxy I Tech - Client: Intuit"'',
      ''This shows the consulting relationship clearly while highlighting client work.'',
      '''',
      ''CRITICAL REQUIREMENTS:'',
      ''- GALAXY I TECH CLIENT SELECTION (VERY IMPORTANT - SHOW ONLY ONE CLIENT):'',
      ''  * If job title contains "QA", "SDET", "Test", "Quality": Show ONLY "Galaxy I Tech - Client: Apple"'',
      ''  * If job title contains "Developer", "Engineer", "Architect" (without QA/Test): Show ONLY "Galaxy I Tech - Client: Intuit"'',
      ''  * NEVER show both Apple and Intuit together! They are the same time period - pick ONE based on job type.'',
      '''',
      ''- Include ALL work experience from the original resume (every single job)'',
      ''- ORDER EXPERIENCE STRICTLY BY DATE (most recent first). The correct order is:'',
      ''  1. Galaxy I Tech (Jun 2025 - Present) - FIRST (current role) - show ONE client only!'',
      ''  2. Citi (Oct 2024 - Jun 2025)'',
      ''  3. LPL Financial (Oct 2023 - Sep 2024)'',
      ''  4. Amazon (Sep 2022 - Oct 2023)'',
      ''  5. Tusimple (Mar 2022 - Sep 2022)'',
      ''  6. Proofpoint (Aug 2021 - Mar 2022)'',
      ''  7. Altimetrik - PayPal (Mar 2020 - Aug 2021) - after Proofpoint!'',
      ''  8. Altimetrik - Ancestry (Jan 2019 - Mar 2020)'',
      ''  9. Altimetrik - Intuit (Jan 2014 - Jan 2019)'',
      ''  10. Barclays (Nov 2012 - Dec 2013)'',
      ''  11. Zyme Solutions (Jan 2007 - Nov 2012)'',
      ''- DATE FORMAT IS MANDATORY: Always use "MMM YYYY - MMM YYYY" format (e.g., "Sep 2022 - Oct 2023")'',
      ''  * Convert "2022-09-17" to "Sep 2022"'',
      ''  * Convert "2023-10-31" to "Oct 2023"'',
      ''  * Use "Present" for current roles'',
      ''  * NEVER use YYYY-MM-DD format'',
      ''- Include at least 3-4 bullet points per job'',
      ''- Tailor bullet points to match the job description keywords'',
      ''- Keep all information truthful from the original resume'',
      ''- Prioritize skills mentioned in job description'',
      ''- Quantify achievements where possible'',
      ''- Return ONLY valid JSON, no other text'']\<close>

definition tailoring_user_message :: "pylib \<Rightarrow> json \<Rightarrow> json \<Rightarrow> json \<Rightarrow> json \<Rightarrow> pystr" where
  "tailoring_user_message lib job_title company job_description resume_content =
     lit ''Job: '' @ py_str lib job_title @ lit '' at '' @ py_str lib company @ [10, 10]
     @ line ''Job Description:'' @ py_str lib job_description @ [10, 10]
     @ line ''Resume:'' @ py_str lib resume_content"

definition tailoring_request ::
  "pylib \<Rightarrow> llm_config \<Rightarrow> json \<Rightarrow> json \<Rightarrow> json \<Rightarrow> json \<Rightarrow> http_request" where
  "tailoring_request lib config job_title company job_description resume_content =
     \<lparr> req_url = cfg_url config,
       req_headers =
         bearer_headers config
         @ (if cfg_provider config = lit ''openrouter''
            then [(lit ''HTTP-Referer'', lit ''https://github.com/resume-generator''),
                  (lit ''X-Title'', lit ''Resume Generator'')]
            else []),
       req_payload =
         JObj ([(lit ''model'', JStr (cfg_model config)),
                (lit ''messages'',
                   JArr [JObj [(lit ''role'', JStr (lit ''system'')),
                               (lit ''content'', JStr tailoring_prompt)],
                         JObj [(lit ''role'', JStr (lit ''user'')),
                               (lit ''content'',
                                  JStr (tailoring_user_message lib job_title company
                                          job_description resume_content))]]),
                (lit ''max_tokens'', JInt 4000),
                (lit ''temperature'', float_0_5)]
               @ (if cfg_provider config = lit ''groq'' \<or> cfg_provider config = lit ''cerebras''
                  then [(lit ''response_format'', JObj [(lit ''type'', JStr (lit ''json_object''))])]
                  else [])),
       req_timeout = None \<rparr>"

text \<open>\<open>k in v\<close> for a string \<open>k\<close>: a key of a dict, an element of a list, a substring
  of a string; \<open>TypeError\<close> on every other value.\<close>

fun is_substring :: "pystr \<Rightarrow> pystr \<Rightarrow> bool" where
  "is_substring k [] = (k = [])"
| "is_substring k (c # s) = (take (length k) (c # s) = k \<or> is_substring k s)"

definition py_contains :: "json \<Rightarrow> pystr \<Rightarrow> error + bool" where
  "py_contains v k =
     (case v of
        JObj kvs \<Rightarrow> Inr (map_of kvs k \<noteq> None)
      | JArr xs \<Rightarrow> Inr (JStr k \<in> set xs)
      | JStr s \<Rightarrow> Inr (is_substring k s)
      | _ \<Rightarrow> Inl TypeError)"

text \<open>
  Lines 314-320: the content must be a string for \<open>json.loads\<close> (a list passes the
  slice of the debug print and fails in \<open>json.loads\<close>, every other value fails in the
  slice). The debug print of the skills evaluates \<open>'skills' in data\<close> and
  \<open>data['skills']\<close>, which raise on some values.
\<close>

definition decode_content :: "pylib \<Rightarrow> json \<Rightarrow> error + json" where
  "decode_content lib content =
     (case content of
        JStr s \<Rightarrow>
          and_then (json_loads lib s) (\<lambda>data.
          and_then (py_contains data (lit ''skills'')) (\<lambda>has_skills.
            if has_skills
            then and_then (py_getitem data (lit ''skills'')) (\<lambda>skills. Inr data)
            else Inr data))
      | _ \<Rightarrow> Inl TypeError)"

text \<open>Lines 303-325: what becomes of the decoded response body. The error branch
  reads \<open>result['error']\<close> for its message, which raises on a string or a list. Of the
  exceptions of the \<open>try\<close> block only \<open>json.JSONDecodeError\<close> is caught.\<close>

definition handle_result :: "pylib \<Rightarrow> json \<Rightarrow> error + json option" where
  "handle_result lib result =
     and_then (py_contains result (lit ''error'')) (\<lambda>has_error.
       if has_error then and_then (py_getitem result (lit ''error'')) (\<lambda>error. Inr None)
       else and_then (py_contains result (lit ''choices'')) (\<lambda>has_choices.
         if has_choices
         then (case and_then (message_content result) (decode_content lib) of
                 Inl e \<Rightarrow> (if e = JSONDecodeError then Inr None else Inl e)
               | Inr data \<Rightarrow> Inr (Some data))
         else Inr None))"

text \<open>
  Lines 173-325. A missing key is caught (\<open>except ValueError\<close>: no request is posted
  and the result is \<open>None\<close>); the one \<open>requests.post\<close> and \<open>response.json()\<close> stand
  outside every \<open>try\<close>.
\<close>

definition get_structured_resume ::
  "pylib \<Rightarrow> environ \<Rightarrow> json \<Rightarrow> json \<Rightarrow> json \<Rightarrow> json \<Rightarrow> net \<Rightarrow> (error + json option) \<times> net" where
  "get_structured_resume lib env job_title company job_description resume_content n =
     (case get_llm_config env of
        Inl e \<Rightarrow> (Inr None, n)
      | Inr config \<Rightarrow>
          (case requests_post
                  (tailoring_request lib config job_title company job_description resume_content) n of
             (Transport_failure, n') \<Rightarrow> (Inl RequestException, n')
           | (Http_response status body, n') \<Rightarrow>
               (and_then (json_loads lib body) (handle_result lib), n')))"

section \<open>The context assembler\<close>

text \<open>
  \<open>load_resume\<close> of generate\_resume.py reads the default resume through the resume
  handler and the override configuration from \<open>current_role.json\<close>, in the local
  \<open>data\<close> folder or else in the fallback folder. The files are inputs of the model:
  what the handler gives (an exception of its import or construction, no resume, or the
  content of the default resume) and the state of each of the two configuration files.
\<close>

datatype file_state =
    Absent
  | Unreadable error
  | Readable pystr

record resume_files =
  default_resume :: "error + pystr option"
  local_role_file :: file_state
  fallback_role_file :: file_state

definition role_file :: "resume_files \<Rightarrow> file_state" where
  "role_file files =
     (case local_role_file files of Absent \<Rightarrow> fallback_role_file files | f \<Rightarrow> f)"

text \<open>The lines \<open>f"\<bullet> {point}\n"\<close> of a loop over points.\<close>

definition point_line :: "pylib \<Rightarrow> json \<Rightarrow> pystr" where
  "point_line lib point = bullet_glyph # lit '' '' @ py_str lib point @ [10]"

definition points_text :: "pylib \<Rightarrow> json \<Rightarrow> error + pystr" where
  "points_text lib points =
     and_then (py_iter points) (\<lambda>pts. Inr (concat (map (point_line lib) pts)))"

text \<open>Lines 96-101: one client of the current role.\<close>

definition client_text :: "pylib \<Rightarrow> json \<Rightarrow> error + pystr" where
  "client_text lib client =
     and_then (py_get client (lit ''title'') (JStr (lit ''Senior Software Engineer''))) (\<lambda>title.
     and_then (py_getitem client (lit ''name'')) (\<lambda>name.
     and_then (py_getitem client (lit ''dates'')) (\<lambda>dates.
     and_then (py_get client (lit ''points'') (JArr [])) (\<lambda>points.
     and_then (points_text lib points) (\<lambda>pts.
       Inr (lit ''Client: '' @ py_str lib name @ [10]
            @ lit ''Title: '' @ py_str lib title @ [10]
            @ lit ''Dates: '' @ py_str lib dates @ [10]
            @ pts @ [10]))))))"

definition role_selection_guidance :: pystr where
  "role_selection_guidance =
     [10] @ line ''ROLE SELECTION GUIDANCE:''
     @ line ''- For Software Engineer positions: Show ONLY the Intuit client experience AND PayPal_SWE experience''
     @ line ''- For QA/SDET/Test/Quality Engineer positions: Show ONLY the Apple client experience AND PayPal_QE experience''
     @ line ''- Include only ONE version of each company based on the job title being applied for''
     @ line ''- PayPal experience should show the role matching the job type (SWE or QE)''"

text \<open>Lines 94-110: the block of the current role.\<close>

definition current_role_text :: "pylib \<Rightarrow> json \<Rightarrow> json \<Rightarrow> error + pystr" where
  "current_role_text lib current exp =
     and_then (py_get exp (lit ''company'') JNull) (\<lambda>company.
     and_then (py_get exp (lit ''type'') (JStr (lit ''Contract''))) (\<lambda>kind.
     and_then (py_get exp (lit ''location'') JNull) (\<lambda>location.
     and_then (py_get exp (lit ''dates'') JNull) (\<lambda>dates.
     and_then (py_get exp (lit ''clients'') (JArr [])) (\<lambda>clients.
     and_then (py_iter clients) (\<lambda>cs.
     and_then (traverse (client_text lib) cs) (\<lambda>client_texts.
     and_then (py_get current (lit ''role_selection'') (JObj [])) (\<lambda>role_selection.
       Inr ([10, 10] @ lit ''CURRENT ROLE at '' @ py_str lib company
            @ lit '' ('' @ py_str lib kind @ lit ''):'' @ [10]
            @ lit ''Location: '' @ py_str lib location @ [10]
            @ lit ''Dates: '' @ py_str lib dates @ [10, 10]
            @ concat client_texts
            @ (if py_truthy role_selection then role_selection_guidance else []))))))))))"

text \<open>\<open>x in added_companies\<close> hashes \<open>x\<close>: a list and a dict are unhashable. The set
  itself stays empty (line 143 is commented out), so the test is always false.\<close>

definition py_hashable :: "json \<Rightarrow> error + unit" where
  "py_hashable v = (case v of JArr xs \<Rightarrow> Inl TypeError | JObj kvs \<Rightarrow> Inl TypeError | _ \<Rightarrow> Inr ())"

text \<open>Lines 130-131: the marker of the role type; only a string has \<open>upper\<close>.\<close>

definition role_type_marker :: "pylib \<Rightarrow> json \<Rightarrow> error + pystr" where
  "role_type_marker lib role_type =
     (if py_truthy role_type
      then (case role_type of
              JStr s \<Rightarrow> Inr ([10] @ lit ''[USE FOR '' @ str_upper lib s @ lit '' ROLES]'' @ [10])
            | _ \<Rightarrow> Inl AttributeError)
      else Inr [])"

definition technologies_line :: "json \<Rightarrow> error + pystr" where
  "technologies_line technologies =
     (if py_truthy technologies
      then and_then (py_join (lit '', '') technologies) (\<lambda>t.
             Inr (lit ''Technologies: '' @ t @ [10]))
      else Inr [])"

text \<open>Lines 121-140: one entry of the missing experience.\<close>

definition missing_entry_text :: "pylib \<Rightarrow> pystr \<times> json \<Rightarrow> error + pystr" where
  "missing_entry_text lib nd =
     and_then (py_get (snd nd) (lit ''role_type'') (JStr [])) (\<lambda>role_type.
     and_then (py_get (snd nd) (lit ''company'') (JStr (fst nd))) (\<lambda>company_base.
     and_then (py_hashable company_base) (\<lambda>u.
     and_then (role_type_marker lib role_type) (\<lambda>marker.
     and_then (py_get (snd nd) (lit ''title'') (JStr [])) (\<lambda>title.
     and_then (py_get (snd nd) (lit ''location'') (JStr [])) (\<lambda>location.
     and_then (py_get (snd nd) (lit ''dates'') (JStr [])) (\<lambda>dates.
     and_then (py_get (snd nd) (lit ''technologies'') JNull) (\<lambda>technologies.
     and_then (technologies_line technologies) (\<lambda>tech.
     and_then (py_get (snd nd) (lit ''points'') (JArr [])) (\<lambda>points.
     and_then (points_text lib points) (\<lambda>pts.
       Inr (marker
            @ py_str lib company_base @ [10]
            @ lit ''Title: '' @ py_str lib title @ [10]
            @ lit ''Location: '' @ py_str lib location @ [10]
            @ lit ''Dates: '' @ py_str lib dates @ [10]
            @ tech
            @ line ''Achievements:''
            @ pts))))))))))))"

text \<open>Lines 118-140: the block of the missing experience.\<close>

definition missing_text :: "pylib \<Rightarrow> json \<Rightarrow> error + pystr" where
  "missing_text lib missing_exp =
     and_then (py_items missing_exp) (\<lambda>entries.
     and_then (traverse (missing_entry_text lib) entries) (\<lambda>ts.
       Inr ([10, 10]
            @ line ''MISSING EXPERIENCE (MUST include in resume - insert in correct chronological order):''
            @ concat ts)))"

text \<open>Lines 154-157: the centre-of-excellence role of a restructured company.\<close>

definition coe_text :: "pylib \<Rightarrow> json \<Rightarrow> error + pystr" where
  "coe_text lib details =
     and_then (py_contains details (lit ''coe'')) (\<lambda>has_coe.
       if has_coe
       then and_then (py_getitem details (lit ''coe'')) (\<lambda>coe.
            and_then (py_get coe (lit ''role'') (JStr [])) (\<lambda>role.
            and_then (py_get coe (lit ''points'') (JArr [])) (\<lambda>points.
            and_then (points_text lib points) (\<lambda>pts.
              Inr (lit ''CoE Role: '' @ py_str lib role @ [10] @ pts)))))
       else Inr [])"

text \<open>Lines 151-157: one company of the restructure block.\<close>

definition restructure_entry_text :: "pylib \<Rightarrow> pystr \<times> json \<Rightarrow> error + pystr" where
  "restructure_entry_text lib cd =
     and_then (py_get (snd cd) (lit ''dates'') (JStr [])) (\<lambda>dates.
     and_then (py_get (snd cd) (lit ''type'') (JStr [])) (\<lambda>kind.
     and_then (py_get (snd cd) (lit ''clients'') (JArr [])) (\<lambda>clients.
     and_then (py_join (lit '', '') clients) (\<lambda>clients_text.
     and_then (coe_text lib (snd cd)) (\<lambda>coe.
       Inr ([10] @ fst cd @ lit '' ('' @ py_str lib dates @ lit '') - '' @ py_str lib kind @ [10]
            @ lit ''Clients: '' @ clients_text @ [10]
            @ coe))))))"

text \<open>Lines 150-157: the block of the experience restructure.\<close>

definition restructure_text :: "pylib \<Rightarrow> json \<Rightarrow> error + pystr" where
  "restructure_text lib restructure =
     and_then (py_items restructure) (\<lambda>entries.
     and_then (traverse (restructure_entry_text lib) entries) (\<lambda>ts.
       Inr ([10, 10]
            @ line ''EXPERIENCE RESTRUCTURE (show these as contract roles under parent company):''
            @ concat ts)))"

text \<open>Lines 163-165: the block of the date corrections.\<close>

definition date_corrections_text :: "pylib \<Rightarrow> json \<Rightarrow> error + pystr" where
  "date_corrections_text lib date_corrections =
     and_then (py_items date_corrections) (\<lambda>entries.
       Inr ([10, 10]
            @ line ''DATE CORRECTIONS (use these dates instead):''
            @ concat (map (\<lambda>cd. lit ''- '' @ fst cd @ lit '': '' @ py_str lib (snd cd) @ [10])
                        entries)))"

text \<open>\<open>if sect: ... resume_content = text + resume_content\<close>, for each of the four sections.\<close>

definition prepend_section :: "json \<Rightarrow> (json \<Rightarrow> error + pystr) \<Rightarrow> pystr \<Rightarrow> error + pystr" where
  "prepend_section sect render resume_content =
     (if py_truthy sect
      then and_then (render sect) (\<lambda>t. Inr (t @ resume_content))
      else Inr resume_content)"

text \<open>Lines 91-166: the four sections are prepended one after the other, so the last
  one prepended stands first.\<close>

definition apply_overrides :: "pylib \<Rightarrow> json \<Rightarrow> pystr \<Rightarrow> error + pystr" where
  "apply_overrides lib current resume_content =
     and_then (py_get current (lit ''current_experience'') (JObj [])) (\<lambda>exp.
     and_then (prepend_section exp (current_role_text lib current) resume_content) (\<lambda>rc1.
     and_then (py_get current (lit ''missing_experience'') (JObj [])) (\<lambda>missing_exp.
     and_then (prepend_section missing_exp (missing_text lib) rc1) (\<lambda>rc2.
     and_then (py_get current (lit ''experience_restructure'') (JObj [])) (\<lambda>restructure.
     and_then (prepend_section restructure (restructure_text lib) rc2) (\<lambda>rc3.
     and_then (py_get current (lit ''date_corrections'') (JObj [])) (\<lambda>date_corrections.
       prepend_section date_corrections (date_corrections_text lib) rc3)))))))"

text \<open>
  Lines 67-171. The whole body stands in one \<open>try\<close> whose handler returns \<open>None\<close>:
  an exception of the handler, of opening or decoding the configuration file, or of
  rendering a section makes the result \<open>None\<close>. Without a resume in the folder the
  content starts empty.
\<close>

definition load_resume :: "pylib \<Rightarrow> resume_files \<Rightarrow> pystr option" where
  "load_resume lib files =
     (case default_resume files of
        Inl e \<Rightarrow> None
      | Inr resume \<Rightarrow>
          (let resume_content = (case resume of None \<Rightarrow> [] | Some content \<Rightarrow> content)
           in case role_file files of
                Absent \<Rightarrow> Some resume_content
              | Unreadable e \<Rightarrow> None
              | Readable text \<Rightarrow>
                  (case and_then (json_loads lib text)
                          (\<lambda>current. apply_overrides lib current resume_content) of
                     Inl e \<Rightarrow> None
                   | Inr r \<Rightarrow> Some r)))"

section \<open>The web application\<close>

record user_profile =
  profile_name :: pystr
  profile_email :: pystr
  profile_phone :: pystr
  profile_linkedin :: pystr
  profile_location :: pystr

definition USER_PROFILE :: user_profile where
  "USER_PROFILE =
     \<lparr> profile_name = lit ''Muhammad Kasim Naina Mohammed'',
       profile_email = lit ''mohammedmazhermd@gmail.com'',
       profile_phone = lit ''(510) 771-4493'',
       profile_linkedin = lit ''https://www.linkedin.com/in/muhammad-kasim-0b297416/'',
       profile_location = lit ''San Jose, CA'' \<rparr>"

text \<open>\<open>d[k] = v\<close> on a dict: the value of an existing key is replaced in place, a new
  key is appended.\<close>

fun dict_set :: "(pystr \<times> json) list \<Rightarrow> pystr \<Rightarrow> json \<Rightarrow> (pystr \<times> json) list" where
  "dict_set [] k v = [(k, v)]"
| "dict_set (p # ps) k v = (if fst p = k then (k, v) # ps else p # dict_set ps k v)"

text \<open>\<open>x[k] = v\<close> on any value with a string key: a list and a string refuse it, and no
  other value supports item assignment.\<close>

definition py_setitem :: "json \<Rightarrow> pystr \<Rightarrow> json \<Rightarrow> error + json" where
  "py_setitem x k v = (case x of JObj kvs \<Rightarrow> Inr (JObj (dict_set kvs k v)) | _ \<Rightarrow> Inl TypeError)"

text \<open>Lines 188-192 of app.py.\<close>

definition inject_profile :: "json \<Rightarrow> error + json" where
  "inject_profile data =
     and_then (py_setitem data (lit ''name'') (JStr (profile_name USER_PROFILE))) (\<lambda>d1.
     and_then (py_setitem d1 (lit ''email'') (JStr (profile_email USER_PROFILE))) (\<lambda>d2.
     and_then (py_setitem d2 (lit ''phone'') (JStr (profile_phone USER_PROFILE))) (\<lambda>d3.
     and_then (py_setitem d3 (lit ''linkedin'') (JStr (profile_linkedin USER_PROFILE))) (\<lambda>d4.
       py_setitem d4 (lit ''location'') (JStr (profile_location USER_PROFILE))))))"

text \<open>
  Lines 167-200: \<open>generate_resume_data\<close>. Its \<open>try\<close> catches every exception and
  returns \<open>None\<close>; a resume that could not be loaded is passed on as \<open>None\<close>.
\<close>

definition generate_resume_data ::
  "pylib \<Rightarrow> environ \<Rightarrow> resume_files \<Rightarrow> json \<Rightarrow> json \<Rightarrow> net \<Rightarrow> json option \<times> net" where
  "generate_resume_data lib env files job_info job_description n =
     (let resume = (case load_resume lib files of None \<Rightarrow> JNull | Some r \<Rightarrow> JStr r)
      in case and_then (py_get job_info (lit ''job_title'') (JStr (lit ''Software Engineer'')))
                (\<lambda>job_title.
                   and_then (py_get job_info (lit ''company'') (JStr (lit ''Company'')))
                     (\<lambda>company. Inr (job_title, company))) of
           Inl e \<Rightarrow> (None, n)
         | Inr jc \<Rightarrow>
             (case get_structured_resume lib env (fst jc) (snd jc) job_description resume n of
                (Inl e, n') \<Rightarrow> (None, n')
              | (Inr None, n') \<Rightarrow> (None, n')
              | (Inr (Some data), n') \<Rightarrow>
                  (if py_truthy data
                   then (case inject_profile data of Inl e \<Rightarrow> None | Inr d \<Rightarrow> Some d)
                   else None,
                   n')))"

text \<open>Lines 202-225: the prompt of the response email and its call.\<close>

definition email_prompt :: "pylib \<Rightarrow> json \<Rightarrow> error + pystr" where
  "email_prompt lib job_info =
     and_then (py_get job_info (lit ''job_title'') JNull) (\<lambda>job_title.
     and_then (py_get job_info (lit ''company'') JNull) (\<lambda>company.
     and_then (py_get job_info (lit ''location'') JNull) (\<lambda>location.
     and_then (py_get job_info (lit ''key_skills'') (JArr [])) (\<lambda>key_skills.
     and_then (py_join (lit '', '') key_skills) (\<lambda>skills.
       Inr (line ''Write a professional, concise job application response email.''
            @ line ''''
            @ lit ''Job Title: '' @ py_str lib job_title @ [10]
            @ lit ''Company: '' @ py_str lib company @ [10]
            @ lit ''Location: '' @ py_str lib location @ [10]
            @ lit ''Key Skills Required: '' @ skills @ [10]
            @ line ''''
            @ line ''Candidate Info:''
            @ lit ''- Name: '' @ profile_name USER_PROFILE @ [10]
            @ line ''- 12+ years Java/microservices experience''
            @ line ''- Currently at Intuit, previously at Amazon, PayPal, Citi''
            @ line ''- Expert in: Java, Spring Boot, Microservices, Kubernetes, Kafka, AWS''
            @ line ''''
            @ line ''Write a SHORT (under 150 words) professional email expressing interest. Include:''
            @ line ''1. Thank them for reaching out''
            @ line ''2. Brief highlight of relevant experience (2-3 bullet points max)''
            @ line ''3. Mention availability for interview''
            @ line ''4. Professional signature with contact info''
            @ line ''''
            @ lit ''Return ONLY the email body, no subject line.''))))))"

definition generate_response_email ::
  "pylib \<Rightarrow> environ \<Rightarrow> json \<Rightarrow> net \<Rightarrow> (error + json) \<times> net" where
  "generate_response_email lib env job_info n =
     (case email_prompt lib job_info of
        Inl e \<Rightarrow> (Inl e, n)
      | Inr prompt \<Rightarrow> call_llm lib env prompt 500 n)"

text \<open>
  The state of the server: the session file \<open>output/last_session.json\<close> (absent, or
  the value last written; writing and reading back a value of \<open>json\<close> gives the same
  value) and the network. A reply is a JSON body with its status, the 500 reply of the
  \<open>except\<close> clause of \<open>generate\<close> with the exception it reports, an exception that no
  handler of the application catches, or a rendered file with its download name.
\<close>

record server =
  session_file :: "json option"
  network :: net

datatype reply =
    Json_reply nat json
  | Error_reply nat error
  | Unhandled error
  | Sent_pdf "flowable list" pystr
  | Sent_docx "docx_block list" pystr

definition save_session :: "json \<Rightarrow> server \<Rightarrow> server" where
  "save_session data st = st\<lparr>session_file := Some data\<rparr>"

definition load_session :: "server \<Rightarrow> json" where
  "load_session st = (case session_file st of None \<Rightarrow> JObj [] | Some data \<Rightarrow> data)"

definition json_of_option :: "json option \<Rightarrow> json" where
  "json_of_option v = (case v of None \<Rightarrow> JNull | Some d \<Rightarrow> d)"

text \<open>Lines 130-165: the route \<open>/api/generate\<close>; \<open>body\<close> is the JSON of the request.\<close>

definition generate ::
  "pylib \<Rightarrow> environ \<Rightarrow> resume_files \<Rightarrow> json \<Rightarrow> server \<Rightarrow> reply \<times> server" where
  "generate lib env files body st =
     (case py_get body (lit ''job_description'') (JStr []) of
        Inl e \<Rightarrow> (Unhandled e, st)
      | Inr job_description \<Rightarrow>
          (if \<not> py_truthy job_description
           then (Json_reply 400 (JObj [(lit ''error'', JStr (lit ''Job description required''))]), st)
           else
             (case extract_job_info lib env job_description (network st) of
                (Inl e, n1) \<Rightarrow> (Error_reply 500 e, st\<lparr>network := n1\<rparr>)
              | (Inr job_info, n1) \<Rightarrow>
                  (case generate_resume_data lib env files job_info job_description n1 of
                     (resume_data, n2) \<Rightarrow>
                       (let st2 = save_session
                                    (JObj [(lit ''resume'', json_of_option resume_data),
                                           (lit ''job_info'', job_info),
                                           (lit ''jd'', job_description)])
                                    (st\<lparr>network := n2\<rparr>)
                        in case generate_response_email lib env job_info n2 of
                             (Inl e, n3) \<Rightarrow> (Error_reply 500 e, st2\<lparr>network := n3\<rparr>)
                           | (Inr email, n3) \<Rightarrow>
                               (Json_reply 200
                                  (JObj [(lit ''success'', JBool True),
                                         (lit ''job_info'', job_info),
                                         (lit ''email'', email),
                                         (lit ''resume_url'', JStr (lit ''/api/resume/download''))]),
                                st2\<lparr>network := n3\<rparr>))))))"

text \<open>Lines 227-250: the route \<open>/api/resume/download\<close> with its two query arguments.\<close>

definition download_resume :: "pylib \<Rightarrow> pystr \<Rightarrow> pystr \<Rightarrow> server \<Rightarrow> reply" where
  "download_resume lib format_type company st =
     (case py_get (load_session st) (lit ''resume'') JNull of
        Inl e \<Rightarrow> Unhandled e
      | Inr resume_data \<Rightarrow>
          (if \<not> py_truthy resume_data
           then Json_reply 400
                  (JObj [(lit ''error'', JStr (lit ''No resume generated yet. Please generate first!''))])
           else if format_type = lit ''pdf''
           then (case app_generate_pdf lib resume_data of
                   Inl e \<Rightarrow> Unhandled e
                 | Inr story \<Rightarrow>
                     Sent_pdf story (lit ''resume_'' @ company @ lit ''.'' @ format_type))
           else (case app_generate_docx lib resume_data of
                   Inl e \<Rightarrow> Unhandled e
                 | Inr blocks \<Rightarrow>
                     Sent_docx blocks (lit ''resume_'' @ company @ lit ''.'' @ format_type))))"

section \<open>A library for concrete evaluation\<close>

text \<open>
  The examples below run the model on concrete inputs, so they fix the library
  parameters: the decoder is a finite table of the texts it decodes (every other text
  is a decode error), and \<open>str.upper\<close> is the ASCII one. The examples render strings
  only, so \<open>str_of\<close> is never reached. The document libraries of the examples
  accept every string; the strings of the examples are plain texts and the balanced
  tags that the source itself writes.
\<close>

definition ascii_upper :: "pystr \<Rightarrow> pystr" where
  "ascii_upper s = map (\<lambda>c. if 97 \<le> c \<and> c \<le> 122 then c - 32 else c) s"

definition table_lib :: "(pystr \<times> json) list \<Rightarrow> pylib" where
  "table_lib tbl =
     \<lparr> json_loads = (\<lambda>s. case map_of tbl s of None \<Rightarrow> Inl JSONDecodeError | Some v \<Rightarrow> Inr v),
       str_of = (\<lambda>v. []),
       str_upper = ascii_upper,
       paragraph_check = (\<lambda>v. if is_str v then None else Some TypeError),
       docx_check = (\<lambda>v. if is_str v then None else Some TypeError) \<rparr>"

text \<open>An experience entry in the schema of the tailoring prompt, with six points.\<close>

definition six_points :: "json list" where
  "six_points =
     [JStr (lit ''p1''), JStr (lit ''p2''), JStr (lit ''p3''),
      JStr (lit ''p4''), JStr (lit ''p5''), JStr (lit ''p6'')]"

definition entry6 :: "(pystr \<times> json) list" where
  "entry6 =
     [(lit ''title'', JStr (lit ''Engineer'')),
      (lit ''company'', JStr (lit ''Citi'')),
      (lit ''location'', JStr (lit ''Remote'')),
      (lit ''dates'', JStr (lit ''Oct 2024 - Jun 2025'')),
      (lit ''points'', JArr six_points)]"

definition resume6 :: json where
  "resume6 =
     JObj [(lit ''name'', JStr (lit ''N'')),
           (lit ''title'', JStr (lit ''T'')),
           (lit ''email'', JStr (lit ''e@x.org'')),
           (lit ''phone'', JStr (lit ''1'')),
           (lit ''location'', JStr (lit ''L'')),
           (lit ''linkedin'', JStr []),
           (lit ''summary'', JStr (lit ''S'')),
           (lit ''skills'', JObj [(lit ''Languages'', JArr [JStr (lit ''Java''), JStr (lit ''Python'')])]),
           (lit ''experience'', JArr [JObj entry6])]"

text \<open>Environments, networks and response bodies of the examples. The decoder table
  holds, for each body and content it lists, the value \<open>json.loads\<close> gives for that
  text.\<close>

definition no_environ :: environ where
  "no_environ = (\<lambda>k. None)"

definition groq_environ :: environ where
  "groq_environ = (\<lambda>k. if k = lit ''GROQ_API_KEY'' then Some (lit ''gsk-example'') else None)"

definition answering :: "pystr \<Rightarrow> net" where
  "answering body = \<lparr> respond = (\<lambda>k req. Http_response 200 body), posted = [] \<rparr>"

definition unreachable :: net where
  "unreachable = \<lparr> respond = (\<lambda>k req. Transport_failure), posted = [] \<rparr>"

definition chat_response :: "pystr \<Rightarrow> json" where
  "chat_response content =
     JObj [(lit ''choices'',
            JArr [JObj [(lit ''message'', JObj [(lit ''content'', JStr content)])]])]"

definition escape_quotes :: "pystr \<Rightarrow> pystr" where
  "escape_quotes s = concat (map (\<lambda>c. if c = 34 then [92, 34] else [c]) s)"

definition chat_body :: "pystr \<Rightarrow> pystr" where
  \<open>chat_body content =
     lit ''{"choices": [{"message": {"content": "'' @ escape_quotes content @ lit ''"}}]}''\<close>

definition body_error :: pystr where
  \<open>body_error = lit ''{"error": {"message": "Rate limit reached"}}''\<close>

definition llm_resume_text :: pystr where
  \<open>llm_resume_text = lit ''{"name": "Jane Doe", "email": "jane@example.org", "summary": "S"}''\<close>

definition llm_resume :: "(pystr \<times> json) list" where
  "llm_resume =
     [(lit ''name'', JStr (lit ''Jane Doe'')),
      (lit ''email'', JStr (lit ''jane@example.org'')),
      (lit ''summary'', JStr (lit ''S''))]"

definition example_lib :: pylib where
  "example_lib =
     table_lib
       [(chat_body (lit ''Sorry, I cannot help.''), chat_response (lit ''Sorry, I cannot help.'')),
        (chat_body (lit ''{job_title: QA}''), chat_response (lit ''{job_title: QA}'')),
        (body_error,
         JObj [(lit ''error'', JObj [(lit ''message'', JStr (lit ''Rate limit reached''))])]),
        (chat_body llm_resume_text, chat_response llm_resume_text),
        (llm_resume_text, JObj llm_resume)]"

definition qa_jd :: json where
  "qa_jd = JStr (lit ''Looking for a Senior QA Engineer, remote, Selenium required'')"

definition cerebras_config :: llm_config where
  "cerebras_config =
     \<lparr> cfg_provider = lit ''cerebras'',
       cfg_url = lit ''https://api.cerebras.ai/v1/chat/completions'',
       cfg_model = lit ''llama-3.3-70b'',
       cfg_api_key = DEFAULT_CEREBRAS_KEY \<rparr>"

definition groq_config :: llm_config where
  "groq_config =
     \<lparr> cfg_provider = lit ''groq'',
       cfg_url = lit ''https://api.groq.com/openai/v1/chat/completions'',
       cfg_model = lit ''llama-3.3-70b-versatile'',
       cfg_api_key = lit ''gsk-example'' \<rparr>"

definition qa_title :: json where
  "qa_title = JStr (lit ''Senior QA Engineer'')"

definition acme :: json where
  "acme = JStr (lit ''Acme'')"

definition base_resume :: pystr where
  "base_resume = lit ''Muhammad Kasim - Software Engineer, 12 years of Java''"

text \<open>A configuration file with the four override sections, the value it decodes to,
  and the four blocks it renders to.\<close>

definition role_config_text :: pystr where
  \<open>role_config_text = lit ''{"current_experience": {"company": "Galaxy I Tech", "location": "San Jose, CA", "dates": "Jun 2025 - Present", "clients": [{"name": "Intuit", "dates": "Jun 2025 - Present", "points": ["Built services"]}]}, "missing_experience": {"PayPal_QE": {"company": "PayPal", "role_type": "qe", "title": "QA Engineer", "points": ["Tested payments"]}}, "experience_restructure": {"Altimetrik": {"dates": "Jan 2014 - Aug 2021", "type": "Contract", "clients": ["PayPal", "Intuit"]}}, "date_corrections": {"Citi": "Oct 2024 - Jun 2025"}}''\<close>

definition ex_current_experience :: json where
  "ex_current_experience =
     JObj [(lit ''company'', JStr (lit ''Galaxy I Tech'')),
           (lit ''location'', JStr (lit ''San Jose, CA'')),
           (lit ''dates'', JStr (lit ''Jun 2025 - Present'')),
           (lit ''clients'',
            JArr [JObj [(lit ''name'', JStr (lit ''Intuit'')),
                        (lit ''dates'', JStr (lit ''Jun 2025 - Present'')),
                        (lit ''points'', JArr [JStr (lit ''Built services'')])]])]"

definition ex_missing_experience :: json where
  "ex_missing_experience =
     JObj [(lit ''PayPal_QE'',
            JObj [(lit ''company'', JStr (lit ''PayPal'')),
                  (lit ''role_type'', JStr (lit ''qe'')),
                  (lit ''title'', JStr (lit ''QA Engineer'')),
                  (lit ''points'', JArr [JStr (lit ''Tested payments'')])])]"

definition ex_restructure :: json where
  "ex_restructure =
     JObj [(lit ''Altimetrik'',
            JObj [(lit ''dates'', JStr (lit ''Jan 2014 - Aug 2021'')),
                  (lit ''type'', JStr (lit ''Contract'')),
                  (lit ''clients'', JArr [JStr (lit ''PayPal''), JStr (lit ''Intuit'')])])]"

definition ex_date_corrections :: json where
  "ex_date_corrections = JObj [(lit ''Citi'', JStr (lit ''Oct 2024 - Jun 2025''))]"

definition role_config :: "(pystr \<times> json) list" where
  "role_config =
     [(lit ''current_experience'', ex_current_experience),
      (lit ''missing_experience'', ex_missing_experience),
      (lit ''experience_restructure'', ex_restructure),
      (lit ''date_corrections'', ex_date_corrections)]"

definition ex_current_block :: pystr where
  "ex_current_block =
     [10, 10] @ line ''CURRENT ROLE at Galaxy I Tech (Contract):''
     @ line ''Location: San Jose, CA''
     @ line ''Dates: Jun 2025 - Present''
     @ [10]
     @ line ''Client: Intuit''
     @ line ''Title: Senior Software Engineer''
     @ line ''Dates: Jun 2025 - Present''
     @ [bullet_glyph] @ line '' Built services''
     @ [10]"

definition ex_missing_block :: pystr where
  "ex_missing_block =
     [10, 10]
     @ line ''MISSING EXPERIENCE (MUST include in resume - insert in correct chronological order):''
     @ [10] @ line ''[USE FOR QE ROLES]''
     @ line ''PayPal''
     @ line ''Title: QA Engineer''
     @ line ''Location: ''
     @ line ''Dates: ''
     @ line ''Achievements:''
     @ [bullet_glyph] @ line '' Tested payments''"

definition ex_restructure_block :: pystr where
  "ex_restructure_block =
     [10, 10]
     @ line ''EXPERIENCE RESTRUCTURE (show these as contract roles under parent company):''
     @ [10] @ line ''Altimetrik (Jan 2014 - Aug 2021) - Contract''
     @ line ''Clients: PayPal, Intuit''"

definition ex_dates_block :: pystr where
  "ex_dates_block =
     [10, 10] @ line ''DATE CORRECTIONS (use these dates instead):''
     @ line ''- Citi: Oct 2024 - Jun 2025''"

definition files_lib :: pylib where
  "files_lib = table_lib [(role_config_text, JObj role_config)]"

definition ex_files :: "file_state \<Rightarrow> resume_files" where
  "ex_files role = \<lparr> default_resume = Inr (Some base_resume), local_role_file = role,
                     fallback_role_file = Absent \<rparr>"

text \<open>The resume of the example after the injection of the profile, a stored session
  that holds it, and a backend that answers the second request of the process with an
  error body.\<close>

definition tailored_resume :: json where
  "tailored_resume =
     JObj [(lit ''name'', JStr (lit ''Muhammad Kasim Naina Mohammed'')),
           (lit ''email'', JStr (lit ''mohammedmazhermd@gmail.com'')),
           (lit ''summary'', JStr (lit ''S'')),
           (lit ''phone'', JStr (lit ''(510) 771-4493'')),
           (lit ''linkedin'', JStr (lit ''https://www.linkedin.com/in/muhammad-kasim-0b297416/'')),
           (lit ''location'', JStr (lit ''San Jose, CA''))]"

definition tailored_pdf :: "flowable list" where
  "tailored_pdf =
     [Paragraph (JStr (lit ''Muhammad Kasim Naina Mohammed'')) App_name_style,
      Paragraph (JStr (lit ''mohammedmazhermd@gmail.com | (510) 771-4493 | San Jose, CA''))
        Normal_style,
      Spacer 1 12,
      Paragraph (JStr (lit ''<b>PROFESSIONAL SUMMARY</b>'')) Heading2_style,
      Paragraph (JStr (lit ''S'')) Normal_style,
      Spacer 1 12,
      Paragraph (JStr (lit ''<b>PROFESSIONAL EXPERIENCE</b>'')) Heading2_style]"

definition rate_limited :: net where
  "rate_limited =
     \<lparr> respond = (\<lambda>k req. if k = 1 then Http_response 200 body_error
                          else Http_response 200 (chat_body (lit ''Sorry, I cannot help.''))),
       posted = [] \<rparr>"

definition earlier_server :: server where
  "earlier_server =
     \<lparr> session_file = Some (JObj [(lit ''resume'', tailored_resume),
                                  (lit ''job_info'', default_job_info),
                                  (lit ''jd'', qa_jd)]),
       network = rate_limited \<rparr>"

definition qa_request :: json where
  "qa_request = JObj [(lit ''job_description'', qa_jd)]"

text \<open>A server that cannot reach the backend, and a response whose message content is
  \<open>null\<close>, with the library that decodes it.\<close>

definition offline_server :: server where
  "offline_server = \<lparr> session_file = None, network = unreachable \<rparr>"

definition body_null_content :: pystr where
  \<open>body_null_content = lit ''{"choices": [{"message": {"content": null}}]}''\<close>

definition null_content_response :: "(pystr \<times> json) list" where
  "null_content_response =
     [(lit ''choices'', JArr [JObj [(lit ''message'', JObj [(lit ''content'', JNull)])]])]"

definition null_content_lib :: pylib where
  "null_content_lib = table_lib [(body_null_content, JObj null_content_response)]"

section \<open>Basic facts\<close>

lemma lit_eq_iff [simp]: "lit a = lit b \<longleftrightarrow> a = b"
  unfolding lit_def by (simp add: inj_map_eq_map inj_on_def)

lemma lit_Nil_iff [simp]: "lit a = [] \<longleftrightarrow> a = []"
  by (simp add: lit_def)

lemma and_then_Inr [simp]: "and_then (Inr v) f = f v"
  by (simp add: and_then_def)

lemma and_then_Inl [simp]: "and_then (Inl e) f = Inl e"
  by (simp add: and_then_def)

lemma py_str_JStr [simp]: "py_str lib (JStr s) = s"
  by (simp add: py_str_def)

lemma py_get_JObj [simp]: "py_get (JObj kvs) k d = Inr (dict_get kvs k d)"
  by (simp add: py_get_def)

lemma py_iter_JArr [simp]: "py_iter (JArr xs) = Inr xs"
  by (simp add: py_iter_def)

lemma py_items_JObj [simp]: "py_items (JObj kvs) = Inr kvs"
  by (simp add: py_items_def)

lemma join_short: "length xs \<le> Suc 0 \<Longrightarrow> join sep xs = concat xs"
  by (cases xs; cases "tl xs") auto

lemma join_commas:
  "join sep xs = (case xs of [] \<Rightarrow> [] | x # rest \<Rightarrow> x @ concat (map (\<lambda>s. sep @ s) rest))"
  by (induction sep xs rule: join.induct) simp_all

lemma traverse_pdf_bullets:
  "list_all (\<lambda>pt. paragraph_check lib (pdf_bullet_text lib pt) = None) pts
   \<Longrightarrow> traverse (pdf_bullet lib) pts
       = Inr (map (\<lambda>pt. Paragraph (pdf_bullet_text lib pt) Bullet_style) pts)"
  by (induction pts) (simp_all add: pdf_bullet_def new_paragraph_def)

lemma traverse_docx_bullets:
  "list_all (\<lambda>pt. docx_check lib pt = None) pts
   \<Longrightarrow> traverse (docx_bullet lib) pts
       = Inr (map (\<lambda>pt. Docx_paragraph pt (Some (lit ''List Bullet'')) [] None) pts)"
  by (induction pts) (simp_all add: docx_bullet_def docx_text_def)

lemma count_pdf_bullets:
  "length (filter is_pdf_bullet (map (\<lambda>pt. Paragraph (f pt) Bullet_style) pts)) = length pts"
  by (induction pts) simp_all

lemma count_docx_bullets:
  "length (filter is_docx_bullet
             (map (\<lambda>pt. Docx_paragraph pt (Some (lit ''List Bullet'')) [] None) pts))
     = length pts"
  by (induction pts) simp_all

lemma table_lib_checks [simp]:
  "paragraph_check (table_lib tbl) (JStr s) = None"
  "docx_check (table_lib tbl) (JStr s) = None"
  by (simp_all add: table_lib_def)

section \<open>Bullet lines per experience entry\<close>

text \<open>
  C1, as the code has it. Neither renderer of generate\_resume.py caps the bullets of an
  experience entry: for every entry that has a title, a company, dates and points, and
  whose texts ReportLab and python-docx accept, the PDF renderer emits one bullet line
  per point and so does the DOCX renderer. An entry with six points has six bullet
  lines in both outputs.
\<close>

theorem bullets_uncapped:
  assumes "map_of kvs (lit ''title'') = Some t" and "map_of kvs (lit ''company'') = Some c"
    and "map_of kvs (lit ''dates'') = Some d" and "map_of kvs (lit ''points'') = Some p"
    and "py_iter p = Inr pts"
    and "paragraph_check lib (pdf_title_text lib t d) = None"
    and "paragraph_check lib
           (pdf_company_text lib c (dict_get kvs (lit ''location'') (JStr []))) = None"
    and "list_all (\<lambda>pt. paragraph_check lib (pdf_bullet_text lib pt) = None) pts"
    and "docx_check lib (JStr (py_str lib t)) = None"
    and "docx_check lib (docx_company_dates_text lib c d) = None"
    and "list_all (\<lambda>pt. docx_check lib pt = None) pts"
  shows "bullet_lines is_pdf_bullet (pdf_experience_entry lib (JObj kvs)) = Inr (length pts)
       \<and> bullet_lines is_docx_bullet (docx_experience_entry lib (JObj kvs)) = Inr (length pts)"
proof -
  have "pdf_experience_entry lib (JObj kvs)
          = Inr ([Paragraph (pdf_title_text lib t d) Exp_title_style,
                  Paragraph (pdf_company_text lib c (dict_get kvs (lit ''location'') (JStr [])))
                    Company_style]
                 @ map (\<lambda>pt. Paragraph (pdf_bullet_text lib pt) Bullet_style) pts
                 @ [Spacer 1 6])"
    using assms(1-8)
    by (simp add: pdf_experience_entry_def dict_get_def new_paragraph_def traverse_pdf_bullets)
  moreover have "docx_experience_entry lib (JObj kvs)
          = Inr (Docx_paragraph (JStr []) None
                   [(JStr (py_str lib t), True), (docx_company_dates_text lib c d, False)] None
                 # map (\<lambda>pt. Docx_paragraph pt (Some (lit ''List Bullet'')) [] None) pts)"
    using assms(1-5,9-11)
    by (simp add: docx_experience_entry_def py_getitem_def docx_text_def traverse_docx_bullets)
  ultimately show ?thesis
    by (simp add: bullet_lines_def count_pdf_bullets count_docx_bullets
        del: filter_map)
qed

theorem bullets_uncapped_witness:
  "bullet_lines is_pdf_bullet (pdf_experience_entry (table_lib []) (JObj entry6)) = Inr 6
   \<and> bullet_lines is_docx_bullet (docx_experience_entry (table_lib []) (JObj entry6)) = Inr 6"
  using bullets_uncapped [of entry6 "JStr (lit ''Engineer'')" "JStr (lit ''Citi'')"
      "JStr (lit ''Oct 2024 - Jun 2025'')" "JArr six_points" six_points "table_lib []"]
  by (simp add: entry6_def six_points_def pdf_title_text_def pdf_company_text_def
      pdf_bullet_text_def docx_company_dates_text_def)

text \<open>
  C1 as the specification states it fails: the PDF of a resume whose one entry has six
  points has six bullet lines, not four.
\<close>

theorem pdf_cap_counterexample:
  "bullet_lines is_pdf_bullet (generate_pdf (table_lib []) resume6) = Inr 6"
  by (simp add: bullet_lines_def generate_pdf_def resume6_def entry6_def six_points_def
      pdf_experience_entry_def dict_get_def pdf_skill_line_def pdf_skill_markup_def
      pdf_skills_text_def pdf_bullet_def pdf_bullet_text_def pdf_title_text_def
      pdf_company_text_def pdf_contact_text_def new_paragraph_def)

section \<open>The download renderers and the key of the bullets\<close>

text \<open>
  C2. The renderers of app.py read the bullets of an entry from the key \<open>bullets\<close>. An
  entry without that key, as every entry in the schema of the tailoring prompt is (it
  keeps its bullets under \<open>points\<close>), is rendered as its two header lines alone,
  followed in the PDF by the spacer: no bullet line is emitted, in either format.
\<close>

theorem app_entry_no_bullets:
  assumes "map_of kvs (lit ''bullets'') = None"
  shows "app_pdf_experience_entry lib (JObj kvs) = Inr (app_pdf_job_header lib kvs @ [Spacer 1 8])
       \<and> app_docx_experience_entry lib (JObj kvs) = Inr (app_docx_job_header lib kvs)"
  using assms
  by (simp add: app_pdf_experience_entry_def app_docx_experience_entry_def app_bullets_def
      dict_get_def py_slice4_def)

theorem app_entry_no_bullets_witness:
  "app_pdf_experience_entry (table_lib []) (JObj entry6)
     = Inr [Paragraph (JStr (lit ''<b>'' @ lit ''Engineer'' @ lit ''</b> | '' @ lit ''Citi''))
              Normal_style,
            Paragraph (JStr (lit ''Oct 2024 - Jun 2025'' @ lit '' | '' @ lit ''Remote''))
              Normal_style,
            Spacer 1 8]
   \<and> app_docx_experience_entry (table_lib []) (JObj entry6)
     = Inr [Docx_paragraph (JStr []) None
              [(JStr (lit ''Engineer''), True), (JStr (lit '' | '' @ lit ''Citi''), False)] None,
            Docx_paragraph (JStr (lit ''Oct 2024 - Jun 2025'' @ lit '' | '' @ lit ''Remote''))
              None [] None]"
  using app_entry_no_bullets [of entry6 "table_lib []"]
  by (simp add: entry6_def app_pdf_job_header_def app_docx_job_header_def dict_get_def)

section \<open>Skills coercion\<close>

text \<open>
  C7. For a skills category whose value is a list of strings, and whose texts the
  libraries accept, the PDF renderer of generate\_resume.py shows the elements with a
  comma and a space between each two, whatever their lengths. The DOCX renderer shows
  them concatenated with no separator when every element has at most two characters,
  and with a comma and a space between each two otherwise.
\<close>

theorem skills_coercion:
  assumes "paragraph_check lib
             (JStr (lit ''<b>'' @ c @ lit '':</b> ''
                    @ (case xs of [] \<Rightarrow> []
                       | x # rest \<Rightarrow> x @ concat (map (\<lambda>s. lit '', '' @ s) rest)))) = None"
    and "docx_check lib (JStr (c @ lit '': '')) = None"
    and "docx_check lib
           (JStr (if list_all (\<lambda>s. length s \<le> 2) xs then concat xs
                  else (case xs of [] \<Rightarrow> []
                        | x # rest \<Rightarrow> x @ concat (map (\<lambda>s. lit '', '' @ s) rest)))) = None"
  shows "pdf_skill_line lib (c, JArr (map JStr xs)) =
           Inr (Paragraph
                  (JStr (lit ''<b>'' @ c @ lit '':</b> ''
                         @ (case xs of [] \<Rightarrow> []
                            | x # rest \<Rightarrow> x @ concat (map (\<lambda>s. lit '', '' @ s) rest))))
                  Body_style)
       \<and> docx_skill_line lib (c, JArr (map JStr xs)) =
           Inr (Docx_paragraph (JStr []) None
                  [(JStr (c @ lit '': ''), True),
                   (JStr (if list_all (\<lambda>s. length s \<le> 2) xs then concat xs
                          else (case xs of [] \<Rightarrow> []
                                | x # rest \<Rightarrow> x @ concat (map (\<lambda>s. lit '', '' @ s) rest))),
                    False)] None)"
proof -
  have pdf: "pdf_skills_text lib (JArr (map JStr xs))
               = JStr (case xs of [] \<Rightarrow> []
                       | x # rest \<Rightarrow> x @ concat (map (\<lambda>s. lit '', '' @ s) rest))"
    by (simp add: pdf_skills_text_def comp_def join_commas [of "lit '', ''" xs])
  have docx: "docx_skills_text lib (JArr (map JStr xs))
                = (if list_all (\<lambda>s. length s \<le> 2) xs then concat xs
                   else (case xs of [] \<Rightarrow> []
                         | x # rest \<Rightarrow> x @ concat (map (\<lambda>s. lit '', '' @ s) rest)))"
    by (cases xs) (simp_all add: docx_skills_text_def comp_def list_all_iff join_commas)
  show ?thesis
    using assms
    by (simp add: pdf_skill_line_def pdf_skill_markup_def new_paragraph_def docx_skill_line_def
        docx_text_def pdf docx)
qed

theorem skills_coercion_witness:
  "pdf_skill_line (table_lib [])
     (lit ''Languages'', JArr [JStr (lit ''Java''), JStr (lit ''Python'')])
     = Inr (Paragraph (JStr (lit ''<b>Languages:</b> Java, Python'')) Body_style)
   \<and> docx_skill_line (table_lib [])
     (lit ''Languages'', JArr [JStr (lit ''Java''), JStr (lit ''Python'')])
     = Inr (Docx_paragraph (JStr []) None
              [(JStr (lit ''Languages: ''), True), (JStr (lit ''Java, Python''), False)] None)
   \<and> pdf_skill_line (table_lib [])
     (lit ''Languages'', JArr [JStr (lit ''J''), JStr (lit ''a''), JStr (lit ''v''), JStr (lit ''a'')])
     = Inr (Paragraph (JStr (lit ''<b>Languages:</b> J, a, v, a'')) Body_style)
   \<and> docx_skill_line (table_lib [])
     (lit ''Languages'', JArr [JStr (lit ''J''), JStr (lit ''a''), JStr (lit ''v''), JStr (lit ''a'')])
     = Inr (Docx_paragraph (JStr []) None
              [(JStr (lit ''Languages: ''), True), (JStr (lit ''Java''), False)] None)"
  using skills_coercion [of "table_lib []" "lit ''Languages''" "[lit ''Java'', lit ''Python'']"]
    skills_coercion [of "table_lib []" "lit ''Languages''"
      "[lit ''J'', lit ''a'', lit ''v'', lit ''a'']"]
  by (simp add: lit_def)

lemma app_get_llm_config_total: "\<exists>config. app_get_llm_config env = Inr config"
  by (simp add: app_get_llm_config_def app_LLM_PROVIDERS_def app_api_key_def Let_def
      DEFAULT_CEREBRAS_KEY_def)

lemmas example_defs =
  no_environ_def groq_environ_def answering_def unreachable_def chat_response_def
  escape_quotes_def chat_body_def body_error_def llm_resume_text_def llm_resume_def
  example_lib_def table_lib_def qa_jd_def

lemmas call_llm_defs =
  call_llm_def app_get_llm_config_def app_LLM_PROVIDERS_def app_api_key_def
  DEFAULT_CEREBRAS_KEY_def requests_post_def message_content_def py_getitem_def
  py_getitem0_def

lemma ex_app_config: "app_get_llm_config no_environ = Inr cerebras_config"
  by (simp add: app_get_llm_config_def app_LLM_PROVIDERS_def app_api_key_def
      DEFAULT_CEREBRAS_KEY_def no_environ_def cerebras_config_def)

lemma ex_groq_config: "get_llm_config groq_environ = Inr groq_config"
  by (simp add: get_llm_config_def LLM_PROVIDERS_def app_LLM_PROVIDERS_def api_key_def
      groq_environ_def groq_config_def)

lemma ex_call_prose:
  "fst (call_llm example_lib no_environ p 500 (answering (chat_body (lit ''Sorry, I cannot help.''))))
     = Inr (JStr (lit ''Sorry, I cannot help.''))"
  by (simp add: call_llm_defs example_defs lit_def)

lemma ex_call_bad_json:
  "fst (call_llm example_lib no_environ p 500 (answering (chat_body (lit ''{job_title: QA}''))))
     = Inr (JStr (lit ''{job_title: QA}''))"
  by (simp add: call_llm_defs example_defs lit_def)

lemma ex_search_prose: "re_search_braces (lit ''Sorry, I cannot help.'') = None"
  by (simp add: re_search_braces_def lit_def)

lemma ex_search_bad_json:
  "re_search_braces (lit ''{job_title: QA}'') = Some (lit ''{job_title: QA}'')"
  by (simp add: re_search_braces_def lit_def)

lemma ex_loads_bad_json: "json_loads example_lib (lit ''{job_title: QA}'') = Inl JSONDecodeError"
  by (simp add: example_defs lit_def)

lemma ex_loads_prose_body:
  "json_loads example_lib (chat_body (lit ''Sorry, I cannot help.''))
     = Inr (chat_response (lit ''Sorry, I cannot help.''))"
  by (simp add: example_defs lit_def)

lemma ex_loads_error_body:
  "json_loads example_lib body_error
     = Inr (JObj [(lit ''error'', JObj [(lit ''message'', JStr (lit ''Rate limit reached''))])])"
  by (simp add: example_defs lit_def)

lemma ex_loads_resume_body:
  "json_loads example_lib (chat_body llm_resume_text) = Inr (chat_response llm_resume_text)"
  by (simp add: example_defs lit_def)

lemma ex_loads_prose: "json_loads example_lib (lit ''Sorry, I cannot help.'') = Inl JSONDecodeError"
  by (simp add: example_defs lit_def)

lemma ex_loads_resume: "json_loads example_lib llm_resume_text = Inr (JObj llm_resume)"
  by (simp add: example_defs lit_def)

lemma message_content_chat_response [simp]:
  "message_content (chat_response content) = Inr (JStr content)"
  by (simp add: message_content_def chat_response_def py_getitem_def py_getitem0_def)

lemma contains_chat_response [simp]:
  "py_contains (chat_response content) (lit ''error'') = Inr False"
  "py_contains (chat_response content) (lit ''choices'') = Inr True"
  by (simp_all add: py_contains_def chat_response_def)

lemma ex_error_body_has_error:
  "py_contains (JObj [(lit ''error'', JObj [(lit ''message'', JStr (lit ''Rate limit reached''))])])
     (lit ''error'') = Inr True"
  by (simp add: py_contains_def)

lemma respond_answering [simp]: "respond (answering body) k req = Http_response 200 body"
  by (simp add: answering_def)

lemma posted_answering [simp]: "posted (answering body) = []"
  by (simp add: answering_def)

section \<open>The extractor and failures of the LLM call\<close>

text \<open>
  C3, as the code has it. The call of the LLM stands outside the \<open>try\<close> of the
  extractor, so every exception of the call, a transport failure or timeout among
  them, is raised to the caller of the extractor; the generate route then answers
  with status 500 and leaves the session file as it was. Once the call has returned a
  message content, the extractor does not raise. It returns what \<open>json.loads\<close>
  gives for the text from the first \<open>{\<close> to the last \<open>}\<close> of the content, and it
  returns the default record when the content is not a string, has no such text, or
  \<open>json.loads\<close> rejects that text.
\<close>

theorem extractor_call_not_guarded:
  assumes "app_get_llm_config env = Inr config"
  shows "(respond n (length (posted n)) (llm_request config (extract_prompt lib jd) 500)
            = Transport_failure
          \<longrightarrow> fst (extract_job_info lib env jd n) = Inl RequestException)
       \<and> (\<forall>e. fst (call_llm lib env (extract_prompt lib jd) 500 n) = Inl e
            \<longrightarrow> fst (extract_job_info lib env jd n) = Inl e)
       \<and> (\<forall>s m v. fst (call_llm lib env (extract_prompt lib jd) 500 n) = Inr (JStr s)
            \<and> re_search_braces s = Some m \<and> json_loads lib m = Inr v
            \<longrightarrow> fst (extract_job_info lib env jd n) = Inr v)
       \<and> (\<forall>content. fst (call_llm lib env (extract_prompt lib jd) 500 n) = Inr content
            \<and> (\<not> is_str content
               \<or> (\<exists>s. content = JStr s
                     \<and> (re_search_braces s = None
                        \<or> (\<exists>m e. re_search_braces s = Some m \<and> json_loads lib m = Inl e))))
            \<longrightarrow> fst (extract_job_info lib env jd n)
                = Inr (JObj [(lit ''job_title'', JStr (lit ''Software Engineer'')),
                             (lit ''company'', JStr (lit ''Company'')),
                             (lit ''location'', JStr (lit ''Remote'')),
                             (lit ''job_type'', JStr (lit ''hybrid'')),
                             (lit ''key_skills'', JArr [])]))
       \<and> (\<forall>body files (st :: server). py_get body (lit ''job_description'') (JStr []) = Inr jd
            \<and> py_truthy jd \<and> network st = n
            \<and> respond n (length (posted n)) (llm_request config (extract_prompt lib jd) 500)
                = Transport_failure
            \<longrightarrow> fst (generate lib env files body st) = Error_reply 500 RequestException
              \<and> session_file (snd (generate lib env files body st)) = session_file st)"
proof (intro conjI allI impI)
  assume "respond n (length (posted n)) (llm_request config (extract_prompt lib jd) 500)
            = Transport_failure"
  then show "fst (extract_job_info lib env jd n) = Inl RequestException"
    using assms by (simp add: extract_job_info_def call_llm_def requests_post_def)
next
  fix e
  assume "fst (call_llm lib env (extract_prompt lib jd) 500 n) = Inl e"
  then show "fst (extract_job_info lib env jd n) = Inl e"
    by (auto simp add: extract_job_info_def split: prod.splits sum.splits)
next
  fix s m v
  assume "fst (call_llm lib env (extract_prompt lib jd) 500 n) = Inr (JStr s)
            \<and> re_search_braces s = Some m \<and> json_loads lib m = Inr v"
  then show "fst (extract_job_info lib env jd n) = Inr v"
    by (auto simp add: extract_job_info_def parse_job_info_def split: prod.splits sum.splits)
next
  fix content
  assume "fst (call_llm lib env (extract_prompt lib jd) 500 n) = Inr content
            \<and> (\<not> is_str content
               \<or> (\<exists>s. content = JStr s
                     \<and> (re_search_braces s = None
                        \<or> (\<exists>m e. re_search_braces s = Some m \<and> json_loads lib m = Inl e))))"
  then show "fst (extract_job_info lib env jd n)
               = Inr (JObj [(lit ''job_title'', JStr (lit ''Software Engineer'')),
                            (lit ''company'', JStr (lit ''Company'')),
                            (lit ''location'', JStr (lit ''Remote'')),
                            (lit ''job_type'', JStr (lit ''hybrid'')),
                            (lit ''key_skills'', JArr [])])"
    by (cases content)
       (auto simp add: extract_job_info_def parse_job_info_def default_job_info_def
          split: prod.splits sum.splits)
next
  fix body files and st :: server
  assume a: "py_get body (lit ''job_description'') (JStr []) = Inr jd
               \<and> py_truthy jd \<and> network st = n
               \<and> respond n (length (posted n)) (llm_request config (extract_prompt lib jd) 500)
                   = Transport_failure"
  then have "fst (extract_job_info lib env jd (network st)) = Inl RequestException"
    using assms by (simp add: extract_job_info_def call_llm_def requests_post_def)
  with a show "fst (generate lib env files body st) = Error_reply 500 RequestException"
    by (auto simp add: generate_def split: prod.splits sum.splits)
  from a \<open>fst (extract_job_info lib env jd (network st)) = Inl RequestException\<close>
  show "session_file (snd (generate lib env files body st)) = session_file st"
    by (auto simp add: generate_def split: prod.splits sum.splits)
qed

lemma ex_call_resume:
  "fst (call_llm example_lib no_environ p 500 (answering (chat_body llm_resume_text)))
     = Inr (JStr llm_resume_text)"
  by (simp add: call_llm_defs example_defs lit_def)

lemma ex_search_resume: "re_search_braces llm_resume_text = Some llm_resume_text"
  by (simp add: re_search_braces_def llm_resume_text_def lit_def)

theorem extractor_call_not_guarded_witness:
  "fst (extract_job_info example_lib no_environ qa_jd unreachable) = Inl RequestException
   \<and> fst (extract_job_info example_lib no_environ qa_jd (answering (chat_body llm_resume_text)))
     = Inr (JObj llm_resume)
   \<and> fst (extract_job_info example_lib no_environ qa_jd
            (answering (chat_body (lit ''Sorry, I cannot help.''))))
     = Inr default_job_info
   \<and> fst (generate example_lib no_environ (ex_files Absent) qa_request offline_server)
     = Error_reply 500 RequestException
   \<and> session_file (snd (generate example_lib no_environ (ex_files Absent) qa_request
                         offline_server)) = None"
proof -
  have jd: "py_get qa_request (lit ''job_description'') (JStr []) = Inr qa_jd"
    by (simp add: qa_request_def dict_get_def)
  have truthy: "py_truthy qa_jd"
    by (simp add: qa_jd_def)
  have net: "network offline_server = unreachable" "session_file offline_server = None"
    by (simp_all add: offline_server_def)
  have down: "respond unreachable (length (posted unreachable))
                (llm_request cerebras_config (extract_prompt example_lib qa_jd) 500)
                = Transport_failure"
    by (simp add: unreachable_def)
  note t1 = extractor_call_not_guarded [OF ex_app_config, of unreachable example_lib qa_jd]
  note t2 = extractor_call_not_guarded [OF ex_app_config,
      of "answering (chat_body llm_resume_text)" example_lib qa_jd]
  note t3 = extractor_call_not_guarded [OF ex_app_config,
      of "answering (chat_body (lit ''Sorry, I cannot help.''))" example_lib qa_jd]
  have c1: "fst (extract_job_info example_lib no_environ qa_jd unreachable)
              = Inl RequestException"
    by (rule t1 [THEN conjunct1, rule_format, OF down])
  have c2: "fst (extract_job_info example_lib no_environ qa_jd
                   (answering (chat_body llm_resume_text))) = Inr (JObj llm_resume)"
    by (rule t2 [THEN conjunct2, THEN conjunct2, THEN conjunct1, rule_format,
          of llm_resume_text llm_resume_text "JObj llm_resume"])
       (simp add: ex_call_resume ex_search_resume ex_loads_resume)
  have c3: "fst (extract_job_info example_lib no_environ qa_jd
                   (answering (chat_body (lit ''Sorry, I cannot help.''))))
              = Inr default_job_info"
    unfolding default_job_info_def
    by (rule t3 [THEN conjunct2, THEN conjunct2, THEN conjunct2, THEN conjunct1, rule_format,
          of "JStr (lit ''Sorry, I cannot help.'')"])
       (simp add: ex_call_prose ex_search_prose)
  have c4: "fst (generate example_lib no_environ (ex_files Absent) qa_request offline_server)
              = Error_reply 500 RequestException
            \<and> session_file (snd (generate example_lib no_environ (ex_files Absent) qa_request
                                  offline_server)) = session_file offline_server"
    by (rule t1 [THEN conjunct2, THEN conjunct2, THEN conjunct2, THEN conjunct2, rule_format,
          of qa_request offline_server "ex_files Absent"])
       (simp add: jd truthy net down)
  from c1 c2 c3 c4 net(2) show ?thesis by simp
qed

text \<open>
  C3 as the specification states it fails: when the backend cannot be reached, the
  extractor raises instead of returning the default record.
\<close>

theorem extractor_raises_counterexample:
  "fst (extract_job_info example_lib no_environ qa_jd unreachable) = Inl RequestException"
  by (simp add: extract_job_info_def call_llm_def ex_app_config requests_post_def unreachable_def)

section \<open>The fallback record of the extractor\<close>

text \<open>
  C6. When the LLM call returns a text in which the search for \<open>{...}\<close> finds
  nothing, or finds a substring that \<open>json.loads\<close> rejects, the extractor returns
  exactly the default record.
\<close>

theorem extractor_fallback:
  assumes "fst (call_llm lib env (extract_prompt lib jd) 500 n) = Inr (JStr s)"
    and "re_search_braces s = None
         \<or> (\<exists>m e. re_search_braces s = Some m \<and> json_loads lib m = Inl e)"
  shows "fst (extract_job_info lib env jd n)
           = Inr (JObj [(lit ''job_title'', JStr (lit ''Software Engineer'')),
                        (lit ''company'', JStr (lit ''Company'')),
                        (lit ''location'', JStr (lit ''Remote'')),
                        (lit ''job_type'', JStr (lit ''hybrid'')),
                        (lit ''key_skills'', JArr [])])"
  using assms
  by (auto simp add: extract_job_info_def parse_job_info_def default_job_info_def
      split: prod.splits sum.splits)

theorem extractor_fallback_witness:
  "fst (extract_job_info example_lib no_environ qa_jd
          (answering (chat_body (lit ''Sorry, I cannot help.'')))) = Inr default_job_info
   \<and> fst (extract_job_info example_lib no_environ qa_jd
          (answering (chat_body (lit ''{job_title: QA}'')))) = Inr default_job_info"
  using extractor_fallback [OF ex_call_prose, of qa_jd]
    extractor_fallback [OF ex_call_bad_json, of qa_jd]
    ex_search_prose ex_search_bad_json ex_loads_bad_json
  by (simp add: default_job_info_def)

section \<open>The result handling of the tailoring requestor\<close>


lemma ex_loads_null_body:
  "json_loads null_content_lib body_null_content = Inr (JObj null_content_response)"
  by (simp add: null_content_lib_def table_lib_def)

lemma ex_null_content: "message_content (JObj null_content_response) = Inr JNull"
  by (simp add: message_content_def null_content_response_def py_getitem_def py_getitem0_def)



lemma date_corrections_text_nonempty: "date_corrections_text lib v = Inr t \<Longrightarrow> t \<noteq> []"
  by (auto simp add: date_corrections_text_def and_then_def split: sum.splits)

lemma restructure_text_nonempty: "restructure_text lib v = Inr t \<Longrightarrow> t \<noteq> []"
  by (auto simp add: restructure_text_def and_then_def split: sum.splits)

lemma missing_text_nonempty: "missing_text lib v = Inr t \<Longrightarrow> t \<noteq> []"
  by (auto simp add: missing_text_def and_then_def split: sum.splits)

lemma current_role_text_nonempty: "current_role_text lib cur v = Inr t \<Longrightarrow> t \<noteq> []"
  by (auto simp add: current_role_text_def and_then_def split: sum.splits)

lemma prepend_section_present:
  "py_truthy v \<Longrightarrow> render v = Inr t \<Longrightarrow> prepend_section v render rc = Inr (t @ rc)"
  by (simp add: prepend_section_def)

lemma prepend_section_absent: "\<not> py_truthy v \<Longrightarrow> prepend_section v render rc = Inr rc"
  by (simp add: prepend_section_def)

lemma ex_role_file: "role_file (ex_files role) = role"
  by (cases role) (simp_all add: role_file_def ex_files_def)

lemma ex_loads_role_config: "json_loads files_lib role_config_text = Inr (JObj role_config)"
  by (simp add: files_lib_def table_lib_def)

lemma ex_loads_broken: "json_loads files_lib (lit ''{not json'') = Inl JSONDecodeError"
  by (simp add: files_lib_def table_lib_def role_config_text_def)

lemma ex_current_text:
  "current_role_text files_lib (JObj role_config) ex_current_experience = Inr ex_current_block"
  by (simp add: current_role_text_def role_config_def ex_current_experience_def dict_get_def
      client_text_def points_text_def point_line_def py_getitem_def ex_current_block_def
      line_def lit_def)

lemma ex_missing_text: "missing_text files_lib ex_missing_experience = Inr ex_missing_block"
  by (simp add: missing_text_def ex_missing_experience_def missing_entry_text_def dict_get_def
      py_hashable_def role_type_marker_def technologies_line_def points_text_def point_line_def
      ex_missing_block_def line_def files_lib_def table_lib_def ascii_upper_def lit_def)

lemma ex_restructure_text: "restructure_text files_lib ex_restructure = Inr ex_restructure_block"
  by (simp add: restructure_text_def ex_restructure_def restructure_entry_text_def dict_get_def
      py_join_def coe_text_def py_contains_def ex_restructure_block_def line_def lit_def)

lemma ex_dates_text: "date_corrections_text files_lib ex_date_corrections = Inr ex_dates_block"
  by (simp add: date_corrections_text_def ex_date_corrections_def ex_dates_block_def line_def
      lit_def)

section \<open>Errors of the override configuration\<close>

text \<open>
  C4, as the code has it. \<open>load_resume\<close> never raises. When no configuration file
  exists, the result is the base resume text with no override section, and the empty
  text when there is no base resume. An error of opening or decoding the configuration
  file is caught by the one handler of the function, which returns \<open>None\<close> for the
  whole assembly.
\<close>

theorem config_errors_fail_assembly:
  assumes "default_resume files = Inr resume"
  shows "(role_file files = Absent
          \<longrightarrow> load_resume lib files = Some (case resume of None \<Rightarrow> [] | Some content \<Rightarrow> content))
       \<and> (\<forall>e. role_file files = Unreadable e \<longrightarrow> load_resume lib files = None)
       \<and> (\<forall>text e. role_file files = Readable text \<and> json_loads lib text = Inl e
            \<longrightarrow> load_resume lib files = None)"
  using assms by (auto simp add: load_resume_def)

theorem config_errors_fail_assembly_witness:
  "load_resume files_lib (ex_files Absent) = Some base_resume
   \<and> load_resume files_lib (ex_files (Unreadable OSError)) = None
   \<and> load_resume files_lib (ex_files (Readable (lit ''{not json''))) = None"
  using config_errors_fail_assembly [of "ex_files Absent" "Some base_resume" files_lib]
    config_errors_fail_assembly [of "ex_files (Unreadable OSError)" "Some base_resume" files_lib]
    config_errors_fail_assembly [of "ex_files (Readable (lit ''{not json''))" "Some base_resume"
      files_lib]
    ex_loads_broken
  by (simp add: ex_role_file) (simp add: ex_files_def)

text \<open>
  C4 as the specification states it fails: with a base resume and a configuration file
  that is not JSON, the result is \<open>None\<close>, not the base resume text.
\<close>

theorem broken_config_counterexample:
  "load_resume files_lib
     \<lparr> default_resume = Inr (Some base_resume), local_role_file = Readable (lit ''{not json''),
       fallback_role_file = Absent \<rparr> = None"
  by (simp add: load_resume_def role_file_def ex_loads_broken)

section \<open>The order of the assembled context\<close>

text \<open>
  C5. When the configuration has all four override sections and each renders to a
  block, the assembled context is the date corrections block, then the restructure
  block, then the missing experience block, then the current role block, then the base
  resume text; no block is empty, so each part stands strictly before the next.
\<close>

theorem context_order:
  assumes "default_resume files = Inr (Some base)"
    and "role_file files = Readable text"
    and "json_loads lib text = Inr (JObj current)"
    and "map_of current (lit ''current_experience'') = Some exp"
    and "py_truthy exp"
    and "current_role_text lib (JObj current) exp = Inr current_block"
    and "map_of current (lit ''missing_experience'') = Some missing"
    and "py_truthy missing"
    and "missing_text lib missing = Inr missing_block"
    and "map_of current (lit ''experience_restructure'') = Some restructure"
    and "py_truthy restructure"
    and "restructure_text lib restructure = Inr restructure_block"
    and "map_of current (lit ''date_corrections'') = Some corrections"
    and "py_truthy corrections"
    and "date_corrections_text lib corrections = Inr dates_block"
  shows "load_resume lib files
           = Some (dates_block @ restructure_block @ missing_block @ current_block @ base)
       \<and> dates_block \<noteq> [] \<and> restructure_block \<noteq> [] \<and> missing_block \<noteq> []
       \<and> current_block \<noteq> []"
proof -
  have "apply_overrides lib (JObj current) base
          = Inr (dates_block @ restructure_block @ missing_block @ current_block @ base)"
    using assms
    by (simp add: apply_overrides_def dict_get_def prepend_section_present)
  then have "load_resume lib files
               = Some (dates_block @ restructure_block @ missing_block @ current_block @ base)"
    using assms(1-3) by (simp add: load_resume_def)
  then show ?thesis
    using assms(6,9,12,15)
    by (simp add: date_corrections_text_nonempty restructure_text_nonempty
        missing_text_nonempty current_role_text_nonempty)
qed

theorem context_order_witness:
  "load_resume files_lib (ex_files (Readable role_config_text))
     = Some (ex_dates_block @ ex_restructure_block @ ex_missing_block @ ex_current_block
             @ base_resume)
   \<and> ex_dates_block \<noteq> [] \<and> ex_restructure_block \<noteq> [] \<and> ex_missing_block \<noteq> []
   \<and> ex_current_block \<noteq> []"
proof -
  have files: "default_resume (ex_files (Readable role_config_text)) = Inr (Some base_resume)"
    by (simp add: ex_files_def)
  have a: "map_of role_config (lit ''current_experience'') = Some ex_current_experience"
    and b: "map_of role_config (lit ''missing_experience'') = Some ex_missing_experience"
    and c: "map_of role_config (lit ''experience_restructure'') = Some ex_restructure"
    and d: "map_of role_config (lit ''date_corrections'') = Some ex_date_corrections"
    by (simp_all add: role_config_def)
  have t: "py_truthy ex_current_experience" "py_truthy ex_missing_experience"
    "py_truthy ex_restructure" "py_truthy ex_date_corrections"
    by (simp_all add: ex_current_experience_def ex_missing_experience_def ex_restructure_def
        ex_date_corrections_def)
  show ?thesis
    by (rule context_order [OF files ex_role_file ex_loads_role_config
          a t(1) ex_current_text b t(2) ex_missing_text c t(3) ex_restructure_text
          d t(4) ex_dates_text])
qed

lemma map_of_dict_set:
  "map_of (dict_set kvs k v) k' = (if k' = k then Some v else map_of kvs k')"
  by (induction kvs) auto

lemma inject_profile_fields:
  assumes "inject_profile data = Inr r"
  shows "py_getitem r (lit ''name'') = Inr (JStr (profile_name USER_PROFILE))
       \<and> py_getitem r (lit ''email'') = Inr (JStr (profile_email USER_PROFILE))
       \<and> py_getitem r (lit ''phone'') = Inr (JStr (profile_phone USER_PROFILE))
       \<and> py_getitem r (lit ''linkedin'') = Inr (JStr (profile_linkedin USER_PROFILE))
       \<and> py_getitem r (lit ''location'') = Inr (JStr (profile_location USER_PROFILE))"
proof (cases data)
  case (JObj kvs)
  with assms show ?thesis
    by (auto simp add: inject_profile_def py_setitem_def py_getitem_def map_of_dict_set)
qed (use assms in \<open>simp_all add: inject_profile_def py_setitem_def\<close>)

lemma inject_profile_JObj: "\<exists>kvs'. inject_profile (JObj kvs) = Inr (JObj kvs')"
  by (simp add: inject_profile_def py_setitem_def)

lemma ex_tailoring_resume:
  "fst (get_structured_resume example_lib groq_environ jt co jd rc
          (answering (chat_body llm_resume_text))) = Inr (Some (JObj llm_resume))"
  by (simp add: get_structured_resume_def ex_groq_config requests_post_def ex_loads_resume_body
      handle_result_def decode_content_def ex_loads_resume)
     (simp add: py_contains_def llm_resume_def)

lemma ex_inject_profile: "inject_profile (JObj llm_resume) = Inr tailored_resume"
  by (simp add: inject_profile_def py_setitem_def llm_resume_def USER_PROFILE_def
      tailored_resume_def)

lemma returned_resume_has_profile:
  assumes "fst (generate_resume_data lib env files job_info jd n) = Some r"
  shows "py_getitem r (lit ''name'') = Inr (JStr (profile_name USER_PROFILE))
       \<and> py_getitem r (lit ''email'') = Inr (JStr (profile_email USER_PROFILE))
       \<and> py_getitem r (lit ''phone'') = Inr (JStr (profile_phone USER_PROFILE))
       \<and> py_getitem r (lit ''linkedin'') = Inr (JStr (profile_linkedin USER_PROFILE))
       \<and> py_getitem r (lit ''location'') = Inr (JStr (profile_location USER_PROFILE))"
proof -
  from assms obtain data where "inject_profile data = Inr r"
    by (auto simp add: generate_resume_data_def Let_def
        split: sum.splits prod.splits option.splits if_splits)
  then show ?thesis by (rule inject_profile_fields)
qed

lemma tailored_resume_is_returned:
  assumes "py_get job_info (lit ''job_title'') (JStr (lit ''Software Engineer'')) = Inr jt"
    and "py_get job_info (lit ''company'') (JStr (lit ''Company'')) = Inr co"
    and "fst (get_structured_resume lib env jt co jd
                (case load_resume lib files of None \<Rightarrow> JNull | Some c \<Rightarrow> JStr c) n)
           = Inr (Some (JObj kvs))"
    and "kvs \<noteq> []"
  shows "\<exists>r. fst (generate_resume_data lib env files job_info jd n) = Some r"
  using assms inject_profile_JObj [of kvs]
  by (auto simp add: generate_resume_data_def Let_def split: prod.splits)

lemma ex_generate_resume_data:
  "fst (generate_resume_data example_lib groq_environ (ex_files Absent) default_job_info qa_jd
          (answering (chat_body llm_resume_text))) = Some tailored_resume"
proof -
  have "fst (get_structured_resume example_lib groq_environ (JStr (lit ''Software Engineer''))
               (JStr (lit ''Company'')) qa_jd (JStr base_resume)
               (answering (chat_body llm_resume_text))) = Inr (Some (JObj llm_resume))"
    by (rule ex_tailoring_resume)
  moreover have "load_resume example_lib (ex_files Absent) = Some base_resume"
    by (simp add: load_resume_def ex_files_def role_file_def)
  moreover have "py_truthy (JObj llm_resume)"
    by (simp add: llm_resume_def)
  ultimately show ?thesis
    by (auto simp add: generate_resume_data_def default_job_info_def dict_get_def
        ex_inject_profile split: prod.splits)
qed

section \<open>Contact identity\<close>

text \<open>
  C9. When the tailoring step of \<open>generate_resume_data\<close> produces a resume, a
  non-empty JSON object, a resume is returned to the caller, and its name, email, phone,
  linkedin and location are those of \<open>USER_PROFILE\<close>, whatever the LLM produced for
  these fields.
\<close>

theorem contact_fields_from_profile:
  assumes "py_get job_info (lit ''job_title'') (JStr (lit ''Software Engineer'')) = Inr jt"
    and "py_get job_info (lit ''company'') (JStr (lit ''Company'')) = Inr co"
    and "fst (get_structured_resume lib env jt co jd
                (case load_resume lib files of None \<Rightarrow> JNull | Some c \<Rightarrow> JStr c) n)
           = Inr (Some (JObj kvs))"
    and "kvs \<noteq> []"
  shows "\<exists>r. fst (generate_resume_data lib env files job_info jd n) = Some r
       \<and> py_getitem r (lit ''name'') = Inr (JStr (profile_name USER_PROFILE))
       \<and> py_getitem r (lit ''email'') = Inr (JStr (profile_email USER_PROFILE))
       \<and> py_getitem r (lit ''phone'') = Inr (JStr (profile_phone USER_PROFILE))
       \<and> py_getitem r (lit ''linkedin'') = Inr (JStr (profile_linkedin USER_PROFILE))
       \<and> py_getitem r (lit ''location'') = Inr (JStr (profile_location USER_PROFILE))"
proof -
  from tailored_resume_is_returned [OF assms]
  obtain r where r: "fst (generate_resume_data lib env files job_info jd n) = Some r" ..
  from returned_resume_has_profile [OF r] r show ?thesis by blast
qed

lemma ex_load_plain: "load_resume example_lib (ex_files Absent) = Some base_resume"
  by (simp add: load_resume_def ex_files_def role_file_def)

lemma ex_tailoring_default_job:
  "fst (get_structured_resume example_lib groq_environ (JStr (lit ''Software Engineer''))
          (JStr (lit ''Company'')) qa_jd
          (case load_resume example_lib (ex_files Absent) of None \<Rightarrow> JNull | Some c \<Rightarrow> JStr c)
          (answering (chat_body llm_resume_text))) = Inr (Some (JObj llm_resume))"
  by (simp add: ex_load_plain ex_tailoring_resume)

theorem contact_fields_from_profile_witness:
  "fst (generate_resume_data example_lib groq_environ (ex_files Absent) default_job_info qa_jd
          (answering (chat_body llm_resume_text))) = Some tailored_resume
   \<and> py_getitem tailored_resume (lit ''name'') = Inr (JStr (lit ''Muhammad Kasim Naina Mohammed''))
   \<and> py_getitem tailored_resume (lit ''email'') = Inr (JStr (lit ''mohammedmazhermd@gmail.com''))
   \<and> py_getitem tailored_resume (lit ''phone'') = Inr (JStr (lit ''(510) 771-4493''))
   \<and> py_getitem tailored_resume (lit ''linkedin'')
       = Inr (JStr (lit ''https://www.linkedin.com/in/muhammad-kasim-0b297416/''))
   \<and> py_getitem tailored_resume (lit ''location'') = Inr (JStr (lit ''San Jose, CA''))"
  using contact_fields_from_profile [where job_info = default_job_info and lib = example_lib
      and env = groq_environ and files = "ex_files Absent" and jd = qa_jd
      and n = "answering (chat_body llm_resume_text)", OF _ _ ex_tailoring_default_job]
    ex_generate_resume_data
  by (simp add: USER_PROFILE_def default_job_info_def dict_get_def llm_resume_def)

lemma ex_app_config_groq: "app_get_llm_config groq_environ = Inr cerebras_config"
  by (simp add: app_get_llm_config_def app_LLM_PROVIDERS_def app_api_key_def
      DEFAULT_CEREBRAS_KEY_def groq_environ_def cerebras_config_def)

lemma ex_extract_rate_limited:
  "extract_job_info example_lib groq_environ qa_jd rate_limited
     = (Inr default_job_info,
        rate_limited\<lparr>posted := [llm_request cerebras_config (extract_prompt example_lib qa_jd) 500]\<rparr>)"
  by (simp add: extract_job_info_def call_llm_def ex_app_config_groq requests_post_def
      rate_limited_def ex_loads_prose_body parse_job_info_def ex_search_prose)

lemma ex_tailoring_rate_limited:
  "fst (generate_resume_data example_lib groq_environ files default_job_info qa_jd
          (rate_limited\<lparr>posted := [req]\<rparr>)) = None"
  by (simp add: generate_resume_data_def default_job_info_def dict_get_def
      get_structured_resume_def ex_groq_config requests_post_def rate_limited_def
      ex_loads_error_body handle_result_def ex_error_body_has_error py_getitem_def)

lemma ex_earlier_download:
  "download_resume example_lib (lit ''pdf'') (lit ''acme'') earlier_server
     = Sent_pdf tailored_pdf (lit ''resume_acme.pdf'')"
  by (simp add: download_resume_def load_session_def earlier_server_def tailored_resume_def
      app_generate_pdf_def app_skills_def dict_get_def tailored_pdf_def lit_def)

section \<open>The stored session after a failed tailoring\<close>

text \<open>
  C10. A generation request with a job description whose extraction step returns
  writes the session file whatever the tailoring step gives: the stored resume is the
  tailored resume, or null when tailoring returned \<open>None\<close>. In that case the next
  download request is answered with the error "No resume generated yet", whatever the
  session file held before.
\<close>

theorem failed_tailoring_overwrites_session:
  assumes "py_get body (lit ''job_description'') (JStr []) = Inr jd"
    and "py_truthy jd"
    and "extract_job_info lib env jd (network st) = (Inr job_info, n1)"
    and "fst (generate_resume_data lib env files job_info jd n1) = resume_data"
  shows "session_file (snd (generate lib env files body st))
           = Some (JObj [(lit ''resume'', json_of_option resume_data),
                         (lit ''job_info'', job_info),
                         (lit ''jd'', jd)])
       \<and> (resume_data = None
          \<longrightarrow> download_resume lib format_type company (snd (generate lib env files body st))
              = Json_reply 400
                  (JObj [(lit ''error'',
                          JStr (lit ''No resume generated yet. Please generate first!''))]))"
proof -
  have saved: "session_file (snd (generate lib env files body st))
                 = Some (JObj [(lit ''resume'', json_of_option resume_data),
                               (lit ''job_info'', job_info),
                               (lit ''jd'', jd)])"
    using assms
    by (auto simp add: generate_def save_session_def Let_def split: prod.splits sum.splits)
  then show ?thesis
    by (simp add: download_resume_def load_session_def json_of_option_def dict_get_def)
qed

theorem failed_tailoring_overwrites_session_witness:
  "download_resume example_lib (lit ''pdf'') (lit ''acme'') earlier_server
     = Sent_pdf tailored_pdf (lit ''resume_acme.pdf'')
   \<and> session_file (snd (generate example_lib groq_environ (ex_files Absent) qa_request
                         earlier_server))
     = Some (JObj [(lit ''resume'', JNull),
                   (lit ''job_info'', default_job_info),
                   (lit ''jd'', qa_jd)])
   \<and> download_resume example_lib (lit ''pdf'') (lit ''acme'')
       (snd (generate example_lib groq_environ (ex_files Absent) qa_request earlier_server))
     = Json_reply 400
         (JObj [(lit ''error'', JStr (lit ''No resume generated yet. Please generate first!''))])"
proof -
  have jd: "py_get qa_request (lit ''job_description'') (JStr []) = Inr qa_jd"
    by (simp add: qa_request_def dict_get_def)
  have truthy: "py_truthy qa_jd"
    by (simp add: qa_jd_def)
  have step1: "extract_job_info example_lib groq_environ qa_jd (network earlier_server)
                   = (Inr default_job_info,
                      rate_limited\<lparr>posted :=
                        [llm_request cerebras_config (extract_prompt example_lib qa_jd) 500]\<rparr>)"
    by (simp add: earlier_server_def ex_extract_rate_limited)
  from failed_tailoring_overwrites_session [OF jd truthy step1 ex_tailoring_rate_limited,
      of "ex_files Absent" "lit ''pdf''" "lit ''acme''"]
    ex_earlier_download
  show ?thesis by (simp add: json_of_option_def)
qed

end
